theory Spec2Isabelle
  imports Main
begin

section \<open>JSON values\<close>

text \<open>
  Tool arguments and JSON schemas are plain JavaScript values.  Objects are association
  lists in property order, with distinct keys as a parsed object has them; \<open>field\<close>
  reads a property (\<open>None\<close> is JavaScript's \<open>undefined\<close>).  Numbers are integers
  here: the code below only ever tests a number for truthiness.
\<close>

datatype json =
    JNull
  | JBool bool
  | JNum int
  | JStr string
  | JArr "json list"
  | JObj "(string \<times> json) list"

text \<open>JavaScript truthiness of a value that is present.\<close>

fun truthy :: "json \<Rightarrow> bool" where
  "truthy JNull = False"
| "truthy (JBool b) = b"
| "truthy (JNum n) = (n \<noteq> 0)"
| "truthy (JStr s) = (s \<noteq> [])"
| "truthy (JArr xs) = True"
| "truthy (JObj kvs) = True"

text \<open>Truthiness of a property read, where \<open>undefined\<close> is falsy.\<close>

fun truthy_opt :: "json option \<Rightarrow> bool" where
  "truthy_opt None = False"
| "truthy_opt (Some v) = truthy v"

text \<open>Property access \<open>s[k]\<close> on an object; an array has none of the named properties.\<close>

fun field :: "json \<Rightarrow> string \<Rightarrow> json option" where
  "field (JObj kvs) k = map_of kvs k"
| "field v k = None"

section \<open>File discovery service (FileDiscoveryService)\<close>

text \<open>
  \<open>FilterFilesOptions\<close> has two optional flags; an absent flag is \<open>None\<close>.  The two
  ignore filters are nullable members of the service; \<open>isIgnored\<close> of a loaded filter is
  the predicate stored in the field.
\<close>

record FilterFilesOptions =
  respectGitIgnore :: "bool option"
  respectcasualresearchIgnore :: "bool option"

record FileDiscoveryService =
  gitIgnoreFilter :: "(string \<Rightarrow> bool) option"
  casualresearchIgnoreFilter :: "(string \<Rightarrow> bool) option"

definition shouldGitIgnoreFile :: "FileDiscoveryService \<Rightarrow> string \<Rightarrow> bool" where
  "shouldGitIgnoreFile svc filePath =
     (case gitIgnoreFilter svc of Some isIgnored \<Rightarrow> isIgnored filePath | None \<Rightarrow> False)"

definition shouldcasualresearchIgnoreFile :: "FileDiscoveryService \<Rightarrow> string \<Rightarrow> bool" where
  "shouldcasualresearchIgnoreFile svc filePath =
     (case casualresearchIgnoreFilter svc of
        Some isIgnored \<Rightarrow> isIgnored filePath
      | None \<Rightarrow> False)"

text \<open>An optional flag used directly as a condition: \<open>undefined\<close> is falsy.\<close>

definition flag_set :: "bool option \<Rightarrow> bool" where
  "flag_set f = (f = Some True)"

text \<open>An optional flag destructured with the default \<open>true\<close>.\<close>

definition flag_default_true :: "bool option \<Rightarrow> bool" where
  "flag_default_true f = (case f of None \<Rightarrow> True | Some b \<Rightarrow> b)"

text \<open>
  \<open>filterFiles\<close>: the default applies to the whole options argument only, so an options
  record that is passed in is read as it is.
\<close>

definition filterFiles ::
  "FileDiscoveryService \<Rightarrow> string list \<Rightarrow> FilterFilesOptions option \<Rightarrow> string list" where
  "filterFiles svc filePaths opts =
     (let options = (case opts of
                       None \<Rightarrow> \<lparr>respectGitIgnore = Some True,
                                 respectcasualresearchIgnore = Some True\<rparr>
                     | Some given \<Rightarrow> given)
      in filter (\<lambda>filePath.
           if flag_set (respectGitIgnore options) \<and> shouldGitIgnoreFile svc filePath
           then False
           else if flag_set (respectcasualresearchIgnore options)
                   \<and> shouldcasualresearchIgnoreFile svc filePath
           then False
           else True) filePaths)"

text \<open>\<open>shouldIgnoreFile\<close>: the options default to the empty record and each flag to \<open>true\<close>.\<close>

definition shouldIgnoreFile ::
  "FileDiscoveryService \<Rightarrow> string \<Rightarrow> FilterFilesOptions option \<Rightarrow> bool" where
  "shouldIgnoreFile svc filePath opts =
     (let options = (case opts of
                       None \<Rightarrow> \<lparr>respectGitIgnore = None, respectcasualresearchIgnore = None\<rparr>
                     | Some given \<Rightarrow> given);
          respectGit = flag_default_true (respectGitIgnore options);
          respectCr = flag_default_true (respectcasualresearchIgnore options)
      in if respectGit \<and> shouldGitIgnoreFile svc filePath then True
         else if respectCr \<and> shouldcasualresearchIgnoreFile svc filePath then True
         else False)"

text \<open>
  A service outside a git repository whose project ignore file lists \<open>a.log\<close>, and an
  options record that sets only \<open>respectGitIgnore\<close>.
\<close>

definition log_service :: FileDiscoveryService where
  "log_service =
     \<lparr>gitIgnoreFilter = None, casualresearchIgnoreFilter = Some (\<lambda>p. p = ''a.log'')\<rparr>"

definition git_only_options :: FilterFilesOptions where
  "git_only_options = \<lparr>respectGitIgnore = Some False, respectcasualresearchIgnore = None\<rparr>"

section \<open>Schema validation of MCP tools (hasValidTypes)\<close>

text \<open>
  \<open>Array.isArray\<close> of a property read, and the elements of the array.
\<close>

fun isArray :: "json option \<Rightarrow> bool" where
  "isArray (Some (JArr xs)) = True"
| "isArray v = False"

fun array_elems :: "json option \<Rightarrow> json list" where
  "array_elems (Some (JArr xs)) = xs"
| "array_elems v = []"

text \<open>
  \<open>Object.values(p)\<close> behind the guard \<open>typeof p === 'object' && p !== null\<close>:
  the property values of an object, the elements of an array, nothing otherwise.
\<close>

fun object_values :: "json option \<Rightarrow> json list" where
  "object_values (Some (JObj kvs)) = map snd kvs"
| "object_values (Some (JArr xs)) = xs"
| "object_values v = []"

text \<open>A property read as a list: the value when there is one.\<close>

fun present :: "'a option \<Rightarrow> 'a list" where
  "present (Some v) = [v]"
| "present None = []"

definition schemaArrayKeywords :: "string list" where
  "schemaArrayKeywords = [''anyOf'', ''allOf'', ''oneOf'']"

lemma size_map_of_json:
  "map_of kvs k = Some v \<Longrightarrow> size v < size (JObj kvs)"
  by (induction kvs) (auto split: if_splits)

lemma size_array_elems:
  "x \<in> set (array_elems (map_of kvs k)) \<Longrightarrow> size x < size (JObj kvs)"
proof (cases "map_of kvs k")
  case None
  assume "x \<in> set (array_elems (map_of kvs k))"
  with None show ?thesis by simp
next
  case (Some v)
  assume mem: "x \<in> set (array_elems (map_of kvs k))"
  from Some have lt: "size v < size (JObj kvs)" by (rule size_map_of_json)
  from mem Some have "size x < size v"
    by (cases v) (auto simp: less_Suc_eq_le size_list_estimation')
  with lt show ?thesis by simp
qed

lemma size_object_values:
  "x \<in> set (object_values (map_of kvs k)) \<Longrightarrow> size x < size (JObj kvs)"
proof (cases "map_of kvs k")
  case None
  assume "x \<in> set (object_values (map_of kvs k))"
  with None show ?thesis by simp
next
  case (Some v)
  assume mem: "x \<in> set (object_values (map_of kvs k))"
  from Some have lt: "size v < size (JObj kvs)" by (rule size_map_of_json)
  have "size x < size v"
  proof (cases v)
    case (JArr xs)
    with mem Some show ?thesis
      by (auto simp: less_Suc_eq_le size_list_estimation')
  next
    case (JObj ps)
    with mem Some obtain key where "(key, x) \<in> set ps" by auto
    then have "size x < Suc (size_list (size_prod (\<lambda>_. 0) size) ps)"
      by (induction ps) auto
    with JObj show ?thesis by simp
  qed (use mem Some in auto)
  with lt show ?thesis by simp
qed

text \<open>
  \<open>hasValidTypes\<close>.  A value that is not an object (or is null) is valid.  An array is an
  object without any of the properties read here, so it fails the first test.  The loops
  that return false at the first invalid subschema are conjunctions over the list.
\<close>

function hasValidTypes :: "json \<Rightarrow> bool" where
  "hasValidTypes JNull = True"
| "hasValidTypes (JBool b) = True"
| "hasValidTypes (JNum n) = True"
| "hasValidTypes (JStr t) = True"
| "hasValidTypes (JArr xs) = False"
| "hasValidTypes (JObj kvs) =
     (if \<not> truthy_opt (map_of kvs ''type'')
         \<and> \<not> list_all (\<lambda>keyword. list_all hasValidTypes (array_elems (map_of kvs keyword)))
               schemaArrayKeywords
      then False
      else if \<not> truthy_opt (map_of kvs ''type'')
              \<and> \<not> list_ex (\<lambda>keyword. isArray (map_of kvs keyword)) schemaArrayKeywords
      then False
      else if map_of kvs ''type'' = Some (JStr ''object'')
              \<and> truthy_opt (map_of kvs ''properties'')
              \<and> \<not> list_all hasValidTypes (object_values (map_of kvs ''properties''))
      then False
      else if map_of kvs ''type'' = Some (JStr ''array'')
              \<and> truthy_opt (map_of kvs ''items'')
              \<and> \<not> (case map_of kvs ''items'' of
                       Some items \<Rightarrow> hasValidTypes items | None \<Rightarrow> True)
      then False
      else True)"
  by pat_completeness auto
termination
proof (relation "measure size")
  show "wf (measure size)" by simp
next
  fix kvs :: "(string \<times> json) list" and keyword x
  assume "x \<in> set (array_elems (map_of kvs keyword))"
  then show "(x, JObj kvs) \<in> measure size"
    using size_array_elems by simp
next
  fix kvs :: "(string \<times> json) list" and x
  assume "x \<in> set (object_values (map_of kvs ''properties''))"
  then show "(x, JObj kvs) \<in> measure size"
    using size_object_values by simp
next
  fix kvs :: "(string \<times> json) list" and x
  assume "map_of kvs ''items'' = Some x"
  then show "(x, JObj kvs) \<in> measure size"
    using size_map_of_json by simp
qed

text \<open>
  The schema tree as the check walks it.  From a node the check descends into the members
  of the \<open>anyOf\<close>, \<open>allOf\<close> and \<open>oneOf\<close> arrays when the node has no (truthy)
  \<open>type\<close>, into the property schemas when the type is \<open>object\<close>, and into the item
  schema when the type is \<open>array\<close>.
\<close>

definition combinator_members :: "(string \<times> json) list \<Rightarrow> json list" where
  "combinator_members kvs =
     (if truthy_opt (map_of kvs ''type'') then []
      else concat (map (\<lambda>keyword. array_elems (map_of kvs keyword)) schemaArrayKeywords))"

definition property_schemas :: "(string \<times> json) list \<Rightarrow> json list" where
  "property_schemas kvs =
     (if map_of kvs ''type'' = Some (JStr ''object'')
      then object_values (map_of kvs ''properties'') else [])"

definition item_schema :: "(string \<times> json) list \<Rightarrow> json list" where
  "item_schema kvs =
     (if map_of kvs ''type'' = Some (JStr ''array'') \<and> truthy_opt (map_of kvs ''items'')
      then present (map_of kvs ''items'')
      else [])"

fun reached_subschemas :: "json \<Rightarrow> json list" where
  "reached_subschemas (JObj kvs) =
     combinator_members kvs @ property_schemas kvs @ item_schema kvs"
| "reached_subschemas v = []"

lemma size_combinator_members:
  "x \<in> set (combinator_members kvs) \<Longrightarrow> size x < size (JObj kvs)"
  using size_array_elems [of x kvs]
  by (cases "truthy_opt (map_of kvs ''type'')")
     (auto simp: combinator_members_def schemaArrayKeywords_def)

lemma size_property_schemas:
  "x \<in> set (property_schemas kvs) \<Longrightarrow> size x < size (JObj kvs)"
  using size_object_values [of x kvs "''properties''"]
  by (cases "map_of kvs ''type'' = Some (JStr ''object'')")
     (auto simp: property_schemas_def)

lemma size_item_schema:
  "x \<in> set (item_schema kvs) \<Longrightarrow> size x < size (JObj kvs)"
  using size_map_of_json [of kvs "''items''" x]
  by (cases "map_of kvs ''items''";
      cases "map_of kvs ''type'' = Some (JStr ''array'') \<and> truthy_opt (map_of kvs ''items'')")
     (simp_all add: item_schema_def)

lemma size_reached_subschemas:
  assumes "x \<in> set (reached_subschemas v)"
  shows "size x < size v"
proof (cases v)
  case (JObj kvs)
  with assms have "x \<in> set (combinator_members kvs) \<or> x \<in> set (property_schemas kvs)
      \<or> x \<in> set (item_schema kvs)"
    by simp
  then show ?thesis
    using JObj size_combinator_members [of x kvs] size_property_schemas [of x kvs]
      size_item_schema [of x kvs]
    by blast
qed (use assms in simp_all)

function schema_nodes :: "json \<Rightarrow> json list" where
  "schema_nodes v = v # concat (map schema_nodes (reached_subschemas v))"
  by pat_completeness auto
termination
  by (relation "measure size") (auto dest: size_reached_subschemas)

declare schema_nodes.simps [simp del]

text \<open>
  A JavaScript object (an array included) as opposed to a primitive value or null.
\<close>

fun is_js_object :: "json \<Rightarrow> bool" where
  "is_js_object (JObj kvs) = True"
| "is_js_object (JArr xs) = True"
| "is_js_object v = False"

definition has_type :: "json \<Rightarrow> bool" where
  "has_type v = truthy_opt (field v ''type'')"

text \<open>What the check requires of one node: a type, or one of the three keywords as an array.\<close>

definition node_accepted :: "json \<Rightarrow> bool" where
  "node_accepted v =
     (if is_js_object v
      then has_type v \<or> list_ex (\<lambda>keyword. isArray (field v keyword)) schemaArrayKeywords
      else True)"

text \<open>
  What the specification requires of one node: a type, or a non-empty \<open>anyOf\<close>,
  \<open>allOf\<close> or \<open>oneOf\<close> array.
\<close>

definition node_valid :: "json \<Rightarrow> bool" where
  "node_valid v =
     (if is_js_object v
      then has_type v
           \<or> list_ex (\<lambda>keyword. array_elems (field v keyword) \<noteq> []) schemaArrayKeywords
      else True)"

text \<open>A node none of whose \<open>anyOf\<close>, \<open>allOf\<close>, \<open>oneOf\<close> properties is an empty array.\<close>

definition no_empty_combinator :: "json \<Rightarrow> bool" where
  "no_empty_combinator v =
     list_all (\<lambda>keyword. \<not> (isArray (field v keyword) \<and> array_elems (field v keyword) = []))
       schemaArrayKeywords"

text \<open>Sample schemas.\<close>

definition typed_with_untyped_member :: json where
  "typed_with_untyped_member =
     JObj [(''type'', JStr ''string''), (''anyOf'', JArr [JObj []])]"

definition empty_anyOf_schema :: json where
  "empty_anyOf_schema = JObj [(''anyOf'', JArr [])]"

definition nested_schema :: json where
  "nested_schema =
     JObj [(''type'', JStr ''object''),
           (''properties'',
              JObj [(''path'', JObj [(''type'', JStr ''string'')]),
                    (''mode'', JObj [(''anyOf'',
                        JArr [JObj [(''type'', JStr ''string'')],
                              JObj [(''type'', JStr ''array''),
                                    (''items'', JObj [(''type'', JStr ''number'')])]])])])]"

section \<open>Model responses\<close>

text \<open>
  The response shape shared by the content generators and the turn engine.  A part is text
  (with the \<open>thought\<close> flag), a function call, a function response or inline data.  An
  optional property is an \<open>option\<close>.  A candidate's content is its list of parts, an absent
  content or candidate list being the empty list (the code only reads them behind \<open>?.\<close>).
\<close>

record FunctionCall =
  fc_id :: "string option"
  fc_name :: "string option"
  fc_args :: "json option"

datatype Part =
    TextPart string
  | ThoughtPart string
  | FunctionCallPart FunctionCall
  | FunctionResponsePart string json
  | InlineDataPart string string

record Candidate =
  parts :: "Part list"
  role :: string
  finishReason :: "string option"

record UsageMetadata =
  promptTokenCount :: nat
  candidatesTokenCount :: nat
  totalTokenCount :: nat

record GenerateContentResponse =
  candidates :: "Candidate list"
  usageMetadata :: "UsageMetadata option"
  response_text :: string
  functionCalls :: "FunctionCall list option"


section \<open>OpenRouter client: chat-completions payloads\<close>

text \<open>
  A parsed chat-completions payload in the wire format of the backend: a list of choices,
  each with a streaming \<open>delta\<close> or a complete \<open>message\<close> (same fields) and a finish
  reason, and a usage block.  A property that is absent or null is \<open>None\<close>.  The fields \<open>text\<close>
  of a response and \<open>function\<close> of a tool call are \<open>response_text\<close> and
  \<open>wire_function\<close> here.
\<close>

record WireFunction =
  fn_name :: "string option"
  fn_arguments :: "string option"

record WireToolCall =
  wire_function :: "WireFunction option"

record WireMessage =
  content :: "string option"
  tool_calls :: "WireToolCall list option"

record WireChoice =
  delta :: "WireMessage option"
  message :: "WireMessage option"
  finish_reason :: "string option"

record WireUsage =
  prompt_tokens :: "nat option"
  completion_tokens :: "nat option"
  total_tokens :: "nat option"

record WireCompletion =
  choices :: "WireChoice list option"
  usage :: "WireUsage option"

text \<open>What a conversion can throw.\<close>

datatype js_error = SyntaxError | TypeError

text \<open>\<open>s || d\<close> for an optional string: the empty string is falsy.\<close>

definition str_or :: "string option \<Rightarrow> string \<Rightarrow> string" where
  "str_or s d = (case s of Some t \<Rightarrow> (if t \<noteq> [] then t else d) | None \<Rightarrow> d)"

text \<open>\<open>s || undefined\<close>.\<close>

definition str_or_undefined :: "string option \<Rightarrow> string option" where
  "str_or_undefined s = (case s of Some t \<Rightarrow> (if t \<noteq> [] then Some t else None) | None \<Rightarrow> None)"

text \<open>\<open>n || 0\<close>.\<close>

definition num_or_zero :: "nat option \<Rightarrow> nat" where
  "num_or_zero n = (case n of Some k \<Rightarrow> k | None \<Rightarrow> 0)"

text \<open>\<open>data.choices?.[0]\<close>.\<close>

definition first_choice :: "WireCompletion \<Rightarrow> WireChoice option" where
  "first_choice data =
     (case choices data of Some (c # cs) \<Rightarrow> Some c | Some [] \<Rightarrow> None | None \<Rightarrow> None)"

text \<open>
  The function call built from one entry of \<open>tool_calls\<close>.  \<open>JSON.parse\<close> is a
  parameter, \<open>None\<close> when it throws; the call then throws the syntax error.
\<close>

definition convertToolCall ::
  "(string \<Rightarrow> json option) \<Rightarrow> WireToolCall \<Rightarrow> js_error + FunctionCall" where
  "convertToolCall JSON_parse toolCall =
     (let function_name = str_or (case wire_function toolCall of Some f \<Rightarrow> fn_name f | None \<Rightarrow> None) [];
          function_arguments =
            str_or (case wire_function toolCall of Some f \<Rightarrow> fn_arguments f | None \<Rightarrow> None) ''{}''
      in case JSON_parse function_arguments of
           None \<Rightarrow> Inl SyntaxError
         | Some parsed \<Rightarrow> Inr \<lparr>fc_id = None, fc_name = Some function_name, fc_args = Some parsed\<rparr>)"

text \<open>The entries in order; the first one that throws ends the conversion.\<close>

fun convertToolCalls ::
  "(string \<Rightarrow> json option) \<Rightarrow> WireToolCall list \<Rightarrow> js_error + FunctionCall list" where
  "convertToolCalls JSON_parse [] = Inr []"
| "convertToolCalls JSON_parse (toolCall # rest) =
     (case convertToolCall JSON_parse toolCall of
        Inl e \<Rightarrow> Inl e
      | Inr functionCall \<Rightarrow>
          (case convertToolCalls JSON_parse rest of
             Inl e \<Rightarrow> Inl e
           | Inr others \<Rightarrow> Inr (functionCall # others)))"

text \<open>
  \<open>convertFromOpenRouterFormat\<close>.  The result is the thrown error, \<open>null\<close>
  (\<open>Inr None\<close>) or a response.  In the streaming branch a delta with a \<open>tool_calls\<close>
  array (an empty array is truthy as well) returns at once; the content is looked at only
  after that.
\<close>

definition convertFromOpenRouterFormat ::
  "(string \<Rightarrow> json option) \<Rightarrow> WireCompletion \<Rightarrow> bool
     \<Rightarrow> js_error + GenerateContentResponse option" where
  "convertFromOpenRouterFormat JSON_parse data isStreaming =
     (if isStreaming then
        (let delta_opt = (case first_choice data of Some c \<Rightarrow> delta c | None \<Rightarrow> None);
             finish = str_or_undefined
                        (case first_choice data of Some c \<Rightarrow> finish_reason c | None \<Rightarrow> None)
         in case (case delta_opt of Some d \<Rightarrow> tool_calls d | None \<Rightarrow> None) of
              Some toolCalls \<Rightarrow>
                (case convertToolCalls JSON_parse toolCalls of
                   Inl e \<Rightarrow> Inl e
                 | Inr calls \<Rightarrow>
                     Inr (Some \<lparr>candidates =
                                   [\<lparr>parts = map FunctionCallPart calls, role = ''model'',
                                     finishReason = finish\<rparr>],
                                 usageMetadata = None,
                                 response_text = [],
                                 functionCalls = Some calls\<rparr>))
            | None \<Rightarrow>
                (case (case delta_opt of Some d \<Rightarrow> content d | None \<Rightarrow> None) of
                   Some c \<Rightarrow>
                     (if c \<noteq> [] then
                        Inr (Some \<lparr>candidates =
                                      [\<lparr>parts = [TextPart c], role = ''model'',
                                        finishReason = finish\<rparr>],
                                    usageMetadata = None,
                                    response_text = c,
                                    functionCalls = Some []\<rparr>)
                      else Inr None)
                 | None \<Rightarrow> Inr None))
      else
        (let choice = first_choice data;
             message_opt = (case choice of Some c \<Rightarrow> message c | None \<Rightarrow> None);
             content_text = str_or (case message_opt of Some m \<Rightarrow> content m | None \<Rightarrow> None) [];
             toolCalls = (case (case message_opt of Some m \<Rightarrow> tool_calls m | None \<Rightarrow> None) of
                            Some tcs \<Rightarrow> tcs | None \<Rightarrow> [])
         in case convertToolCalls JSON_parse toolCalls of
              Inl e \<Rightarrow> Inl e
            | Inr calls \<Rightarrow>
                (let parts1 = map FunctionCallPart calls;
                     parts2 = (if content_text \<noteq> [] then parts1 @ [TextPart content_text]
                               else parts1);
                     parts3 = (if parts2 = [] then [TextPart content_text] else parts2)
                 in Inr (Some \<lparr>candidates =
                                  [\<lparr>parts = parts3, role = ''model'',
                                    finishReason =
                                      Some (str_or (case choice of Some c \<Rightarrow> finish_reason c
                                                    | None \<Rightarrow> None) ''STOP'')\<rparr>],
                                usageMetadata =
                                  Some \<lparr>promptTokenCount = num_or_zero
                                           (case usage data of Some u \<Rightarrow> prompt_tokens u
                                            | None \<Rightarrow> None),
                                         candidatesTokenCount = num_or_zero
                                           (case usage data of Some u \<Rightarrow> completion_tokens u
                                            | None \<Rightarrow> None),
                                         totalTokenCount = num_or_zero
                                           (case usage data of Some u \<Rightarrow> total_tokens u
                                            | None \<Rightarrow> None)\<rparr>,
                                response_text = content_text,
                                functionCalls = Some calls\<rparr>))))"

section \<open>OpenRouter client: the streaming generator\<close>

text \<open>
  The body of the HTTP response arrives as a list of decoded text chunks.  The strings of
  the model are the JavaScript strings whose code units are all below 256: lists of
  characters with the codes 0 to 255.  Of the white space and line terminators
  that \<open>String.prototype.trim\<close> removes, the characters with such codes are the tab,
  the line feed, the vertical tab, the form feed, the carriage return, the space and the
  no-break space (code 0xA0).
\<close>

definition newline :: char where
  "newline = CHR 0x0A"

definition is_space :: "char \<Rightarrow> bool" where
  "is_space c = (c = CHR 0x09 \<or> c = CHR 0x0A \<or> c = CHR 0x0B \<or> c = CHR 0x0C
                 \<or> c = CHR 0x0D \<or> c = CHR 0x20 \<or> c = CHR 0xA0)"

definition trim :: "string \<Rightarrow> string" where
  "trim s = rev (dropWhile is_space (rev (dropWhile is_space s)))"

text \<open>\<open>s.split('\n')\<close>: never empty; the last element is the text after the last newline.\<close>

fun split_newline :: "string \<Rightarrow> string list" where
  "split_newline [] = [[]]"
| "split_newline (c # cs) =
     (if c = newline then [] # split_newline cs
      else (case split_newline cs of
              l # ls \<Rightarrow> (c # l) # ls
            | [] \<Rightarrow> [[c]]))"

definition startsWith :: "string \<Rightarrow> string \<Rightarrow> bool" where
  "startsWith line p = (take (length p) line = p)"

text \<open>
  The body of the inner \<open>try\<close>: parse the payload and convert it as a streaming chunk.
  A payload that does not parse, a conversion that throws and a conversion to \<open>null\<close>
  all yield nothing.  \<open>parse_chunk\<close> is \<open>JSON.parse\<close> on a payload, read in the wire
  format; \<open>JSON_parse\<close> is \<open>JSON.parse\<close> on the arguments of a tool call.
\<close>

definition yield_of ::
  "(string \<Rightarrow> WireCompletion option) \<Rightarrow> (string \<Rightarrow> json option) \<Rightarrow> string
     \<Rightarrow> GenerateContentResponse option" where
  "yield_of parse_chunk JSON_parse jsonStr =
     (case parse_chunk jsonStr of
        None \<Rightarrow> None
      | Some data \<Rightarrow>
          (case convertFromOpenRouterFormat JSON_parse data True of
             Inl e \<Rightarrow> None
           | Inr None \<Rightarrow> None
           | Inr (Some converted) \<Rightarrow> Some converted))"

text \<open>
  The \<open>for\<close> loop over the complete lines of one read: the responses yielded, and
  whether the loop hit \<open>[DONE]\<close> and returned from the generator.
\<close>

fun process_lines ::
  "(string \<Rightarrow> WireCompletion option) \<Rightarrow> (string \<Rightarrow> json option) \<Rightarrow> string list
     \<Rightarrow> GenerateContentResponse list \<times> bool" where
  "process_lines parse_chunk JSON_parse [] = ([], False)"
| "process_lines parse_chunk JSON_parse (line # rest) =
     (if startsWith line ''data: '' then
        (let jsonStr = trim (drop 6 line)
         in if jsonStr = ''[DONE]'' then ([], True)
            else (case yield_of parse_chunk JSON_parse jsonStr of
                    Some converted \<Rightarrow>
                      (case process_lines parse_chunk JSON_parse rest of
                         (yielded, finished) \<Rightarrow> (converted # yielded, finished))
                  | None \<Rightarrow> process_lines parse_chunk JSON_parse rest))
      else process_lines parse_chunk JSON_parse rest)"

text \<open>
  The \<open>while (true)\<close> loop over the reads, with the buffer of the unfinished last line.
  The reads end when the body does (\<open>done\<close>); what is left in the buffer then is dropped.
  The result is the sequence of values the generator yields.
\<close>

fun read_loop ::
  "(string \<Rightarrow> WireCompletion option) \<Rightarrow> (string \<Rightarrow> json option) \<Rightarrow> string \<Rightarrow> string list
     \<Rightarrow> GenerateContentResponse list" where
  "read_loop parse_chunk JSON_parse buffer [] = []"
| "read_loop parse_chunk JSON_parse buffer (chunk # later) =
     (let lines = split_newline (buffer @ chunk);
          buffer' = last lines;
          result = process_lines parse_chunk JSON_parse (butlast lines)
      in if snd result then fst result
         else fst result @ read_loop parse_chunk JSON_parse buffer' later)"

definition createStreamGenerator ::
  "(string \<Rightarrow> WireCompletion option) \<Rightarrow> (string \<Rightarrow> json option) \<Rightarrow> string list
     \<Rightarrow> GenerateContentResponse list" where
  "createStreamGenerator parse_chunk JSON_parse chunks =
     read_loop parse_chunk JSON_parse [] chunks"

text \<open>
  The stream as the specification describes it: the complete lines of the whole body, of
  these the \<open>data:\<close> lines, up to the first whose payload is \<open>[DONE]\<close>, each giving at
  most one response.
\<close>

definition complete_lines :: "string \<Rightarrow> string list" where
  "complete_lines body = butlast (split_newline body)"

definition payload :: "string \<Rightarrow> string" where
  "payload line = trim (drop 6 line)"

definition sse_responses ::
  "(string \<Rightarrow> WireCompletion option) \<Rightarrow> (string \<Rightarrow> json option) \<Rightarrow> string
     \<Rightarrow> GenerateContentResponse list" where
  "sse_responses parse_chunk JSON_parse body =
     List.map_filter (\<lambda>line. yield_of parse_chunk JSON_parse (payload line))
       (takeWhile (\<lambda>line. payload line \<noteq> ''[DONE]'')
          (filter (\<lambda>line. startsWith line ''data: '') (complete_lines body)))"

text \<open>
  Sample payloads, with the values \<open>JSON.parse\<close> gives for them.
\<close>

definition empty_wire_message :: WireMessage where
  "empty_wire_message = \<lparr>content = None, tool_calls = None\<rparr>"

definition delta_chunk :: "WireMessage \<Rightarrow> WireCompletion" where
  "delta_chunk d =
     \<lparr>choices = Some [\<lparr>delta = Some d, message = None, finish_reason = None\<rparr>],
      usage = None\<rparr>"

definition read_file_call :: WireToolCall where
  "read_file_call =
     \<lparr>wire_function = Some \<lparr>fn_name = Some ''read_file'', fn_arguments = Some ''{}''\<rparr>\<rparr>"

definition hello_payload :: string where
  \<open>hello_payload = ''{"choices":[{"delta":{"content":"Hello"}}]}''\<close>

definition sample_parse_chunk :: "string \<Rightarrow> WireCompletion option" where
  "sample_parse_chunk s =
     (if s = hello_payload
      then Some (delta_chunk (empty_wire_message\<lparr>content := Some ''Hello''\<rparr>))
      else None)"

definition sample_JSON_parse :: "string \<Rightarrow> json option" where
  "sample_JSON_parse s = (if s = ''{}'' then Some (JObj []) else None)"

definition checking_message :: WireMessage where
  "checking_message = \<lparr>content = Some ''Let me check'', tool_calls = Some [read_file_call]\<rparr>"

definition message_reply :: "WireMessage \<Rightarrow> WireCompletion" where
  "message_reply m =
     \<lparr>choices = Some [\<lparr>delta = None, message = Some m, finish_reason = None\<rparr>],
      usage = None\<rparr>"

definition read_file_function_call :: FunctionCall where
  "read_file_function_call =
     \<lparr>fc_id = None, fc_name = Some ''read_file'', fc_args = Some (JObj [])\<rparr>"

text \<open>The parts of the first candidate of a conversion result (none when there is no response).\<close>

definition converted_parts :: "js_error + GenerateContentResponse option \<Rightarrow> Part list" where
  "converted_parts r =
     (case r of
        Inr (Some resp) \<Rightarrow> (case candidates resp of c # cs \<Rightarrow> parts c | [] \<Rightarrow> [])
      | Inr None \<Rightarrow> []
      | Inl e \<Rightarrow> [])"

section \<open>Turn engine (Turn.run)\<close>

record ToolCallRequestInfo =
  callId :: string
  name :: string
  args :: json
  isClientInitiated :: bool
  prompt_id :: string

record ThoughtSummary =
  subject :: string
  description :: string

record StructuredError =
  message :: string
  status :: "int option"

text \<open>
  The stream events.  The payloads of the confirmation and response events and of the
  compression event are not produced by the code modelled here and carry only what the
  orchestrator reads.
\<close>

datatype casualresearchEvent =
    Content string
  | ToolCallRequest ToolCallRequestInfo
  | ToolCallResponse string
  | ToolCallConfirmation string
  | UserCancelled
  | Error StructuredError
  | ChatCompressed "(nat \<times> nat) option"
  | Thought ThoughtSummary
  | MaxSessionTurns
  | Finished string
  | LoopDetected

text \<open>
  What the turn takes from its surroundings, for thrown values of a type \<open>'e\<close>: the
  helpers of the error module (\<open>toFriendlyError\<close>, the \<open>instanceof UnauthorizedError\<close>
  test, \<open>getErrorMessage\<close>), the \<open>status\<close> property of an error object when it has one,
  the chat's \<open>maybeIncludeSchemaDepthContext\<close> (which may rewrite the structured error it
  is given), \<open>getResponseText\<close>, and the text \<open>Date.now()\<close>-random that ends the
  \<open>k\<close>-th synthesized call id.
\<close>

record 'e TurnEnv =
  toFriendlyError :: "'e \<Rightarrow> 'e"
  isUnauthorizedError :: "'e \<Rightarrow> bool"
  getErrorMessage :: "'e \<Rightarrow> string"
  errorStatus :: "'e \<Rightarrow> json option"
  maybeIncludeSchemaDepthContext :: "StructuredError \<Rightarrow> StructuredError"
  getResponseText :: "GenerateContentResponse \<Rightarrow> string option"
  idStamp :: "nat \<Rightarrow> string"

record Turn =
  pendingToolCalls :: "ToolCallRequestInfo list"
  debugResponses :: "GenerateContentResponse list"
  turnFinishReason :: "string option"
  turn_prompt_id :: string

text \<open>
  The first match of \<open>/\*\*(.*?)\*\*/s\<close>: the text before the first \<open>**\<close>, the text
  up to the next \<open>**\<close>, and the rest.  \<open>split_stars\<close> cuts a string at its first
  \<open>**\<close>.
\<close>

fun split_stars :: "string \<Rightarrow> (string \<times> string) option" where
  "split_stars (a # b # cs) =
     (if a = CHR ''*'' \<and> b = CHR ''*'' then Some ([], cs)
      else (case split_stars (b # cs) of
              Some (before, after) \<Rightarrow> Some (a # before, after)
            | None \<Rightarrow> None))"
| "split_stars cs = None"

definition match_bold :: "string \<Rightarrow> (string \<times> string \<times> string) option" where
  "match_bold rawText =
     (case split_stars rawText of
        None \<Rightarrow> None
      | Some (before, rest) \<Rightarrow>
          (case split_stars rest of
             None \<Rightarrow> None
           | Some (inner, after) \<Rightarrow> Some (before, inner, after)))"

definition parseThought :: "string \<Rightarrow> ThoughtSummary" where
  "parseThought rawText =
     (case match_bold rawText of
        Some (before, inner, after) \<Rightarrow>
          \<lparr>subject = trim inner, description = trim (before @ after)\<rparr>
      | None \<Rightarrow> \<lparr>subject = [], description = trim rawText\<rparr>)"

text \<open>
  \<open>handlePendingFunctionCall\<close>: the request is appended to the pending calls and
  returned in an event.  A missing name prints as \<open>undefined\<close> in the synthesized id.
\<close>

definition handlePendingFunctionCall ::
  "'e TurnEnv \<Rightarrow> Turn \<Rightarrow> FunctionCall \<Rightarrow> Turn \<times> casualresearchEvent" where
  "handlePendingFunctionCall env turn fnCall =
     (let newCallId =
            (case fc_id fnCall of
               Some given \<Rightarrow> given
             | None \<Rightarrow>
                 (case fc_name fnCall of Some n \<Rightarrow> n | None \<Rightarrow> ''undefined'')
                 @ ''-'' @ idStamp env (length (pendingToolCalls turn)));
          newName = (case fc_name fnCall of
                       Some n \<Rightarrow> (if n \<noteq> [] then n else ''undefined_tool_name'')
                     | None \<Rightarrow> ''undefined_tool_name'');
          newArgs = (case fc_args fnCall of
                       Some a \<Rightarrow> (if truthy a then a else JObj [])
                     | None \<Rightarrow> JObj []);
          toolCallRequest =
            \<lparr>callId = newCallId, name = newName, args = newArgs,
             isClientInitiated = False, prompt_id = turn_prompt_id turn\<rparr>
      in (turn\<lparr>pendingToolCalls := pendingToolCalls turn @ [toolCallRequest]\<rparr>,
          ToolCallRequest toolCallRequest))"

fun handleFunctionCalls ::
  "'e TurnEnv \<Rightarrow> Turn \<Rightarrow> FunctionCall list \<Rightarrow> Turn \<times> casualresearchEvent list" where
  "handleFunctionCalls env turn [] = (turn, [])"
| "handleFunctionCalls env turn (fnCall # rest) =
     (case handlePendingFunctionCall env turn fnCall of
        (turn1, event) \<Rightarrow>
          (case handleFunctionCalls env turn1 rest of
             (turn2, events) \<Rightarrow> (turn2, event # events)))"

text \<open>The first part of the first candidate, when it is marked as a thought.\<close>

definition thoughtPart :: "GenerateContentResponse \<Rightarrow> string option" where
  "thoughtPart resp =
     (case candidates resp of
        c # cs \<Rightarrow> (case parts c of ThoughtPart rawText # ps \<Rightarrow> Some rawText | _ \<Rightarrow> None)
      | [] \<Rightarrow> None)"

definition firstFinishReason :: "GenerateContentResponse \<Rightarrow> string option" where
  "firstFinishReason resp =
     (case candidates resp of
        c # cs \<Rightarrow> (case finishReason c of
                     Some r \<Rightarrow> (if r \<noteq> [] then Some r else None)
                   | None \<Rightarrow> None)
      | [] \<Rightarrow> None)"

text \<open>One response of the stream that was not cut short by the cancellation signal.\<close>

definition handleResponse ::
  "'e TurnEnv \<Rightarrow> Turn \<Rightarrow> GenerateContentResponse \<Rightarrow> Turn \<times> casualresearchEvent list" where
  "handleResponse env turn resp =
     (let turn1 = turn\<lparr>debugResponses := debugResponses turn @ [resp]\<rparr>
      in case thoughtPart resp of
           Some rawText \<Rightarrow> (turn1, [Thought (parseThought rawText)])
         | None \<Rightarrow>
             (let contentEvents =
                    (case getResponseText env resp of
                       Some t \<Rightarrow> (if t \<noteq> [] then [Content t] else [])
                     | None \<Rightarrow> []);
                  calls = (case functionCalls resp of Some fcs \<Rightarrow> fcs | None \<Rightarrow> [])
              in case handleFunctionCalls env turn1 calls of
                   (turn2, callEvents) \<Rightarrow>
                     (case firstFinishReason resp of
                        Some reason \<Rightarrow>
                          (turn2\<lparr>turnFinishReason := Some reason\<rparr>,
                           contentEvents @ callEvents @ [Finished reason])
                      | None \<Rightarrow> (turn2, contentEvents @ callEvents))))"

text \<open>
  The \<open>for await\<close> loop.  Each item of the stream comes with the state of the
  cancellation signal when the loop receives it.  The result says whether the loop
  returned from the generator (on cancellation) instead of reaching the end of the items.
\<close>

fun consume ::
  "'e TurnEnv \<Rightarrow> Turn \<Rightarrow> (bool \<times> GenerateContentResponse) list
     \<Rightarrow> Turn \<times> casualresearchEvent list \<times> bool" where
  "consume env turn [] = (turn, [], False)"
| "consume env turn ((aborted, resp) # rest) =
     (if aborted then (turn, [UserCancelled], True)
      else (case handleResponse env turn resp of
              (turn1, events) \<Rightarrow>
                (case consume env turn1 rest of
                   (turn2, later, returned) \<Rightarrow> (turn2, events @ later, returned))))"

text \<open>
  How the backend stream ends after its items: normally, or by raising a value, with the
  state of the cancellation signal at that moment.  A failure of \<open>sendMessageStream\<close>
  itself is a stream without items that raises.
\<close>

datatype 'e stream_end = Ended | Raised 'e bool

datatype 'e outcome = Returned | Threw 'e

record 'e TurnResult =
  events :: "casualresearchEvent list"
  turnAfter :: Turn
  reported :: "'e list"
  outcome :: "'e outcome"

text \<open>The \<open>status\<close> of the structured error: the property when it is a number.\<close>

definition numericStatus :: "json option \<Rightarrow> int option" where
  "numericStatus s = (case s of Some (JNum n) \<Rightarrow> Some n | _ \<Rightarrow> None)"

text \<open>
  The \<open>catch\<close> block of \<open>run\<close>, given the events yielded so far: the unauthorized
  test comes first, then the test of the signal, then the report and the error event.
\<close>

definition onException ::
  "'e TurnEnv \<Rightarrow> Turn \<Rightarrow> casualresearchEvent list \<Rightarrow> 'e \<Rightarrow> bool \<Rightarrow> 'e TurnResult" where
  "onException env turn yielded e aborted =
     (let error = toFriendlyError env e
      in if isUnauthorizedError env error then
           \<lparr>events = yielded, turnAfter = turn, reported = [], outcome = Threw error\<rparr>
         else if aborted then
           \<lparr>events = yielded @ [UserCancelled], turnAfter = turn, reported = [],
            outcome = Returned\<rparr>
         else
           (let structuredError =
                  \<lparr>message = getErrorMessage env error,
                   status = numericStatus (errorStatus env error)\<rparr>
            in \<lparr>events = yielded
                          @ [Error (maybeIncludeSchemaDepthContext env structuredError)],
                turnAfter = turn, reported = [error], outcome = Returned\<rparr>))"

definition run ::
  "'e TurnEnv \<Rightarrow> Turn \<Rightarrow> (bool \<times> GenerateContentResponse) list \<Rightarrow> 'e stream_end
     \<Rightarrow> 'e TurnResult" where
  "run env turn stream ending =
     (case consume env turn stream of
        (turn1, yielded, returned) \<Rightarrow>
          (if returned then
             \<lparr>events = yielded, turnAfter = turn1, reported = [], outcome = Returned\<rparr>
           else (case ending of
                   Ended \<Rightarrow>
                     \<lparr>events = yielded, turnAfter = turn1, reported = [], outcome = Returned\<rparr>
                 | Raised e aborted \<Rightarrow> onException env turn1 yielded e aborted)))"

text \<open>
  A thrown value for examples: whether it is an unauthorized error, its message and its
  \<open>status\<close> property.
\<close>

record SampleError =
  unauthorized :: bool
  errorMessage :: string
  errorStatusProperty :: "json option"

definition sample_env :: "SampleError TurnEnv" where
  "sample_env =
     \<lparr>toFriendlyError = (\<lambda>e. e),
      isUnauthorizedError = unauthorized,
      getErrorMessage = errorMessage,
      errorStatus = errorStatusProperty,
      maybeIncludeSchemaDepthContext = (\<lambda>s. s),
      getResponseText = (\<lambda>resp. if response_text resp = [] then None
                                  else Some (response_text resp)),
      idStamp = (\<lambda>k. ''0-0'')\<rparr>"

definition new_turn :: Turn where
  "new_turn =
     \<lparr>pendingToolCalls = [], debugResponses = [], turnFinishReason = None,
      turn_prompt_id = ''session########0''\<rparr>"

definition unauthorized_error :: SampleError where
  "unauthorized_error =
     \<lparr>unauthorized = True, errorMessage = ''Unauthorized'',
      errorStatusProperty = Some (JNum 401)\<rparr>"

definition quota_error :: SampleError where
  "quota_error =
     \<lparr>unauthorized = False, errorMessage = ''Quota exceeded'',
      errorStatusProperty = Some (JNum 429)\<rparr>"

definition hello_response :: GenerateContentResponse where
  "hello_response =
     \<lparr>candidates = [\<lparr>parts = [TextPart ''Hello''], role = ''model'', finishReason = None\<rparr>],
      usageMetadata = None,
      response_text = ''Hello'',
      functionCalls = Some []\<rparr>"

fun isErrorEvent :: "casualresearchEvent \<Rightarrow> bool" where
  "isErrorEvent (Error e) = True"
| "isErrorEvent ev = False"

section \<open>MCP client: connection and discovery\<close>

datatype MCPServerStatus = DISCONNECTED | CONNECTING | CONNECTED

record MCPServerConfig =
  command :: "string option"
  httpUrl :: "string option"
  url :: "string option"
  timeout :: "nat option"
  trust :: "bool option"

datatype Transport =
    StdioClientTransport string
  | StreamableHTTPClientTransport string
  | SSEClientTransport string

text \<open>
  A prompt as the server lists it, and as it is registered.  The fields of the registered
  prompt that no check below reads (its arguments, the injected system prompt, the invoke
  closure) are left out.
\<close>

record Prompt =
  prompt_name :: string
  prompt_description :: "string option"

record DiscoveredMCPPrompt = Prompt +
  serverName :: string

record FunctionDeclaration =
  decl_name :: string
  decl_description :: "string option"
  parametersJsonSchema :: "json option"

record DiscoveredMCPTool =
  tool_serverName :: string
  tool_name :: string
  tool_description :: string
  parameterSchema :: json
  tool_timeout :: nat
  tool_trust :: "bool option"

definition MCP_DEFAULT_TIMEOUT_MSEC :: nat where
  "MCP_DEFAULT_TIMEOUT_MSEC = 10 * 60 * 1000"

text \<open>
  The collaborators, for clients \<open>'c\<close>, prompt registries \<open>'p\<close> and tool registries
  \<open>'t\<close>: whether \<open>new URL\<close> accepts a string, \<open>client.connect\<close> (\<open>None\<close> when it
  throws), the server's prompts capability, the \<open>prompts/list\<close> request and the tool
  listing (\<open>None\<close> when they throw; the inner \<open>None\<close> of the tool listing is a
  \<open>functionDeclarations\<close> that is not an array), and the two registries, which are not
  under src/ (a registration is \<open>None\<close> when it throws).
\<close>

record ('c, 'p, 't) MCPEnv =
  validURL :: "string \<Rightarrow> bool"
  connect :: "Transport \<Rightarrow> 'c option"
  promptsCapability :: "'c \<Rightarrow> bool"
  listPrompts :: "'c \<Rightarrow> Prompt list option"
  listTools :: "'c \<Rightarrow> FunctionDeclaration list option option"
  registerPrompt :: "'p \<Rightarrow> DiscoveredMCPPrompt \<Rightarrow> 'p option"
  getAllPrompts :: "'p \<Rightarrow> DiscoveredMCPPrompt list"
  registerTool :: "'t \<Rightarrow> DiscoveredMCPTool \<Rightarrow> 't option"

text \<open>
  The module state and the registries.  \<open>notifications\<close> records the calls of the
  listeners \<open>'l\<close>, in order, with their arguments; \<open>closedClients\<close> counts the calls of
  \<open>mcpClient.close\<close>.
\<close>

record ('l, 'p, 't) MCPState =
  serverStatuses :: "string \<rightharpoonup> MCPServerStatus"
  statusChangeListeners :: "'l list"
  notifications :: "('l \<times> string \<times> MCPServerStatus) list"
  promptRegistry :: 'p
  toolRegistry :: 't
  closedClients :: nat

definition updateMCPServerStatus ::
  "('l, 'p, 't) MCPState \<Rightarrow> string \<Rightarrow> MCPServerStatus \<Rightarrow> ('l, 'p, 't) MCPState" where
  "updateMCPServerStatus st mcpServerName newStatus =
     st\<lparr>serverStatuses := (serverStatuses st)(mcpServerName \<mapsto> newStatus),
        notifications := notifications st
          @ map (\<lambda>listener. (listener, mcpServerName, newStatus)) (statusChangeListeners st)\<rparr>"

definition getMCPServerStatus :: "('l, 'p, 't) MCPState \<Rightarrow> string \<Rightarrow> MCPServerStatus" where
  "getMCPServerStatus st mcpServerName =
     (case serverStatuses st mcpServerName of Some s \<Rightarrow> s | None \<Rightarrow> DISCONNECTED)"

definition given :: "string option \<Rightarrow> bool" where
  "given s = (case s of Some t \<Rightarrow> t \<noteq> [] | None \<Rightarrow> False)"

text \<open>\<open>createTransport\<close>: \<open>None\<close> is \<open>null\<close>, also when \<open>new URL\<close> throws.\<close>

definition createTransport ::
  "('c, 'p, 't) MCPEnv \<Rightarrow> string \<Rightarrow> MCPServerConfig \<Rightarrow> Transport option" where
  "createTransport env mcpServerName cfg =
     (if given (command cfg) then Some (StdioClientTransport (the (command cfg)))
      else if given (httpUrl cfg) then
        (if validURL env (the (httpUrl cfg))
         then Some (StreamableHTTPClientTransport (the (httpUrl cfg))) else None)
      else if given (url cfg) then
        (if validURL env (the (url cfg))
         then Some (SSEClientTransport (the (url cfg))) else None)
      else None)"

definition connectToMcpServer ::
  "('c, 'p, 't) MCPEnv \<Rightarrow> string \<Rightarrow> MCPServerConfig \<Rightarrow> 'c option" where
  "connectToMcpServer env mcpServerName cfg =
     (case createTransport env mcpServerName cfg of
        None \<Rightarrow> None
      | Some transport \<Rightarrow> connect env transport)"

text \<open>
  The registration loop of \<open>discoverPrompts\<close>: the registry after the prompts that were
  registered, and whether the loop got through.
\<close>

fun registerPrompts ::
  "('c, 'p, 't) MCPEnv \<Rightarrow> string \<Rightarrow> 'p \<Rightarrow> Prompt list \<Rightarrow> 'p \<times> bool" where
  "registerPrompts env mcpServerName reg [] = (reg, True)"
| "registerPrompts env mcpServerName reg (prompt # rest) =
     (case registerPrompt env reg
             \<lparr>prompt_name = prompt_name prompt,
              prompt_description = prompt_description prompt,
              serverName = mcpServerName\<rparr> of
        None \<Rightarrow> (reg, False)
      | Some reg1 \<Rightarrow> registerPrompts env mcpServerName reg1 rest)"

text \<open>
  \<open>discoverPrompts\<close>: every exception ends in the empty result.  After the loop the
  function returns \<open>promptRegistry.getAllPrompts()\<close>.
\<close>

definition discoverPrompts ::
  "('c, 'p, 't) MCPEnv \<Rightarrow> string \<Rightarrow> 'c \<Rightarrow> 'p \<Rightarrow> 'p \<times> DiscoveredMCPPrompt list" where
  "discoverPrompts env mcpServerName mcpClient reg =
     (if \<not> promptsCapability env mcpClient then (reg, [])
      else (case listPrompts env mcpClient of
              None \<Rightarrow> (reg, [])
            | Some listed \<Rightarrow>
                (case registerPrompts env mcpServerName reg listed of
                   (reg1, ok) \<Rightarrow> (if ok then (reg1, getAllPrompts env reg1) else (reg1, [])))))"

text \<open>\<open>hasValidTypes\<close> of a schema that may be \<open>undefined\<close>.\<close>

definition hasValidTypesOpt :: "json option \<Rightarrow> bool" where
  "hasValidTypesOpt schema = (case schema of None \<Rightarrow> True | Some s \<Rightarrow> hasValidTypes s)"

definition discoverTools ::
  "('c, 'p, 't) MCPEnv \<Rightarrow> string \<Rightarrow> MCPServerConfig \<Rightarrow> 'c \<Rightarrow> DiscoveredMCPTool list" where
  "discoverTools env mcpServerName cfg mcpClient =
     (case listTools env mcpClient of
        None \<Rightarrow> []
      | Some None \<Rightarrow> []
      | Some (Some functionDeclarations) \<Rightarrow>
          map (\<lambda>funcDecl.
                 \<lparr>tool_serverName = mcpServerName,
                  tool_name = decl_name funcDecl,
                  tool_description =
                    (case decl_description funcDecl of Some d \<Rightarrow> d | None \<Rightarrow> []),
                  parameterSchema =
                    (case parametersJsonSchema funcDecl of
                       Some s \<Rightarrow> s
                     | None \<Rightarrow> JObj [(''type'', JStr ''object''), (''properties'', JObj [])]),
                  tool_timeout =
                    (case timeout cfg of Some t \<Rightarrow> t | None \<Rightarrow> MCP_DEFAULT_TIMEOUT_MSEC),
                  tool_trust = trust cfg\<rparr>)
            (filter (\<lambda>funcDecl. hasValidTypesOpt (parametersJsonSchema funcDecl))
               functionDeclarations))"

fun registerTools ::
  "('c, 'p, 't) MCPEnv \<Rightarrow> 't \<Rightarrow> DiscoveredMCPTool list \<Rightarrow> 't \<times> bool" where
  "registerTools env reg [] = (reg, True)"
| "registerTools env reg (tool # rest) =
     (case registerTool env reg tool of
        None \<Rightarrow> (reg, False)
      | Some reg1 \<Rightarrow> registerTools env reg1 rest)"

text \<open>The \<open>catch\<close> block of \<open>connectAndDiscover\<close>, entered with a client.\<close>

definition discoveryFailed ::
  "('l, 'p, 't) MCPState \<Rightarrow> string \<Rightarrow> ('l, 'p, 't) MCPState" where
  "discoveryFailed st mcpServerName =
     updateMCPServerStatus (st\<lparr>closedClients := Suc (closedClients st)\<rparr>)
       mcpServerName DISCONNECTED"

text \<open>
  \<open>connectAndDiscover\<close>.  The \<open>onerror\<close> handler it installs on the client runs at a
  later time when the transport fails; it is not part of this call.
\<close>

definition connectAndDiscover ::
  "('c, 'p, 't) MCPEnv \<Rightarrow> string \<Rightarrow> MCPServerConfig \<Rightarrow> ('l, 'p, 't) MCPState
     \<Rightarrow> ('l, 'p, 't) MCPState" where
  "connectAndDiscover env mcpServerName cfg st =
     (let st1 = updateMCPServerStatus st mcpServerName CONNECTING
      in case connectToMcpServer env mcpServerName cfg of
           None \<Rightarrow> updateMCPServerStatus st1 mcpServerName DISCONNECTED
         | Some mcpClient \<Rightarrow>
             (case discoverPrompts env mcpServerName mcpClient (promptRegistry st1) of
                (reg1, prompts) \<Rightarrow>
                  (let st2 = st1\<lparr>promptRegistry := reg1\<rparr>;
                       tools = discoverTools env mcpServerName cfg mcpClient
                   in if prompts = [] \<and> tools = [] then discoveryFailed st2 mcpServerName
                      else
                        (let st3 = updateMCPServerStatus st2 mcpServerName CONNECTED
                         in case registerTools env (toolRegistry st3) tools of
                              (treg, ok) \<Rightarrow>
                                (if ok then st3\<lparr>toolRegistry := treg\<rparr>
                                 else discoveryFailed (st3\<lparr>toolRegistry := treg\<rparr>)
                                        mcpServerName)))))"

text \<open>
  A run of the discovery: the registries are lists, a registration appends.  The prompt
  registry already holds a prompt of the server \<open>docs\<close>.  The server \<open>empty\<close> connects
  over stdio, declares the prompts capability, lists no prompt and has no tool listing.
\<close>

definition list_env :: "(unit, DiscoveredMCPPrompt list, DiscoveredMCPTool list) MCPEnv" where
  "list_env =
     \<lparr>validURL = (\<lambda>u. True),
      connect = (\<lambda>t. Some ()),
      promptsCapability = (\<lambda>c. True),
      listPrompts = (\<lambda>c. Some []),
      listTools = (\<lambda>c. Some None),
      registerPrompt = (\<lambda>reg p. Some (reg @ [p])),
      getAllPrompts = (\<lambda>reg. reg),
      registerTool = (\<lambda>reg t. Some (reg @ [t]))\<rparr>"

definition docs_prompt :: DiscoveredMCPPrompt where
  "docs_prompt =
     \<lparr>prompt_name = ''summarize'', prompt_description = None, serverName = ''docs''\<rparr>"

definition after_docs ::
  "(nat, DiscoveredMCPPrompt list, DiscoveredMCPTool list) MCPState" where
  "after_docs =
     \<lparr>serverStatuses = [''docs'' \<mapsto> CONNECTED],
      statusChangeListeners = [0],
      notifications = [],
      promptRegistry = [docs_prompt],
      toolRegistry = [],
      closedClients = 0\<rparr>"

definition empty_server :: MCPServerConfig where
  "empty_server =
     \<lparr>command = Some ''empty-server'', httpUrl = None, url = None, timeout = None,
      trust = None\<rparr>"

section \<open>Stream orchestrator (usecasualresearchStream): data\<close>

text \<open>
  A \<open>PartListUnion\<close> is a string, a part, or an array of strings and parts.
\<close>

datatype PartUnion = PartString string | PartObject Part

datatype PartListUnion = Single PartUnion | Multiple "PartUnion list"

fun isString :: "PartListUnion \<Rightarrow> bool" where
  "isString (Single (PartString s)) = True"
| "isString q = False"

text \<open>\<open>mergePartListUnions\<close>: arrays are spread, anything else is pushed as it is.\<close>

fun mergePartListUnions :: "PartListUnion list \<Rightarrow> PartUnion list" where
  "mergePartListUnions [] = []"
| "mergePartListUnions (Multiple items # rest) = items @ mergePartListUnions rest"
| "mergePartListUnions (Single item # rest) = item # mergePartListUnions rest"

datatype ToolStatus =
    validating | scheduled | awaiting_approval | executing | success | failed | cancelled

text \<open>
  A tracked tool call: the request, the status (\<open>failed\<close> is the status \<open>error\<close>),
  the response parts of the response when there is one, and the submitted flag.
\<close>

record TrackedToolCall =
  request :: ToolCallRequestInfo
  toolStatus :: ToolStatus
  responseParts :: "PartListUnion option"
  responseSubmittedTocasualresearch :: bool

datatype StreamingState = Idle | Responding | WaitingForConfirmation

record Content =
  content_role :: string
  content_parts :: "Part list"

datatype ToolCallStatus =
    Pending | Canceled | Confirming | Executing | Succeeded | Errored

record IndividualToolCallDisplay =
  display_callId :: string
  display_status :: ToolCallStatus

text \<open>
  The items of the displayed history.  An info or error item whose text is built from
  values keeps the values; the text is a function of them.
\<close>

datatype InfoText =
    InfoPlain string
  | InfoCompressed "(nat \<times> nat) option"
  | InfoMaxSessionTurns
  | InfoFinishWarning string

datatype ErrorText = ApiError StructuredError | ThrownError string

datatype HistoryItemWithoutId =
    ItemUser string
  | ItemModel string
  | ItemModelContent string
  | ItemInfo InfoText
  | ItemError ErrorText
  | ItemToolGroup "IndividualToolCallDisplay list"
  | ItemSystemPrompt string

datatype SlashCommandProcessorResult =
    schedule_tool string json
  | submit_prompt PartListUnion
  | handled

record AtCommandResult =
  processedQuery :: "PartListUnion option"
  shouldProceed :: bool
  addedItems :: "HistoryItemWithoutId list"

text \<open>
  What a call of \<open>sendMessageStream\<close> gives: the events of the turn, and how the stream
  ends, by completing or by throwing.
\<close>

datatype StreamEnding = Completes | ThrowsUnauthorized | ThrowsAbortError | ThrowsError string

record BackendStream =
  streamEvents :: "casualresearchEvent list"
  streamEnding :: StreamEnding

text \<open>
  The collaborators of the hook: the configuration, the client's \<open>sendMessageStream\<close>,
  the command processors, the Markdown split point, the display mapping of the scheduler,
  and the text of \<open>Date.now()\<close>-random in the identifier of a slash-command call.
\<close>

record OrchEnv =
  sessionId :: string
  sendMessageStream :: "PartListUnion \<Rightarrow> string \<Rightarrow> BackendStream"
  handleSlashCommand :: "string \<Rightarrow> SlashCommandProcessorResult option"
  shellModeActive :: bool
  handleShellCommand :: "string \<Rightarrow> bool"
  isAtCommand :: "string \<Rightarrow> bool"
  handleAtCommand :: "string \<Rightarrow> AtCommandResult"
  findLastSafeSplitPoint :: "string \<Rightarrow> nat"
  mapTrackedToolCallsToDisplay :: "TrackedToolCall list \<Rightarrow> HistoryItemWithoutId"
  shouldLogSystemPrompt :: bool
  getSystemInstruction :: "string option"
  callIdSuffix :: string

text \<open>
  The state the hook reads and writes: its React state and refs, the tool calls of the
  scheduler, the prompt count of the session, the displayed history (\<open>addItem\<close>), the
  history of the client (\<open>addHistory\<close>), and the calls it makes to its collaborators
  (messages sent to the backend, memory refreshes, auth errors, cancelled submits).
  State and refs are read at the time of the call.
\<close>

record Orchestrator =
  isResponding :: bool
  toolCalls :: "TrackedToolCall list"
  promptCount :: nat
  history :: "HistoryItemWithoutId list"
  clientHistory :: "Content list"
  pendingHistoryItem :: "HistoryItemWithoutId option"
  turnCancelled :: bool
  abortSignalAborted :: bool
  modelSwitchedFromQuotaError :: bool
  quotaErrorOccurred :: bool
  thought :: "ThoughtSummary option"
  initError :: "string option"
  loopDetected :: bool
  processedMemoryTools :: "string list"
  memoryRefreshes :: nat
  sentMessages :: "(PartListUnion \<times> string) list"
  authErrors :: nat
  cancelledSubmits :: nat

section \<open>Stream orchestrator: operations\<close>

definition addItem :: "Orchestrator \<Rightarrow> HistoryItemWithoutId \<Rightarrow> Orchestrator" where
  "addItem st item = st\<lparr>history := history st @ [item]\<rparr>"

definition addHistory :: "Orchestrator \<Rightarrow> Content \<Rightarrow> Orchestrator" where
  "addHistory st c = st\<lparr>clientHistory := clientHistory st @ [c]\<rparr>"

text \<open>
  Modelled from the spec: the scheduler hook (\<open>useReactToolScheduler\<close>) and the session
  statistics (\<open>useSessionStats\<close>) are not under src/.  The spec has \<open>schedule\<close> append
  each request as a tracked tool call in the \<open>validating\<close> state, \<open>markSubmitted\<close>
  flip the submitted flag of the calls with the given ids, and a new prompt increment the
  prompt counter.
\<close>

definition scheduleToolCalls :: "Orchestrator \<Rightarrow> ToolCallRequestInfo list \<Rightarrow> Orchestrator" where
  "scheduleToolCalls st requests =
     st\<lparr>toolCalls := toolCalls st
          @ map (\<lambda>r. \<lparr>request = r, toolStatus = validating, responseParts = None,
                        responseSubmittedTocasualresearch = False\<rparr>) requests\<rparr>"

definition markToolsAsSubmitted :: "Orchestrator \<Rightarrow> string list \<Rightarrow> Orchestrator" where
  "markToolsAsSubmitted st callIds =
     st\<lparr>toolCalls :=
          map (\<lambda>tc. if List.member callIds (callId (request tc))
                     then tc\<lparr>responseSubmittedTocasualresearch := True\<rparr> else tc)
            (toolCalls st)\<rparr>"

definition startNewPrompt :: "Orchestrator \<Rightarrow> Orchestrator" where
  "startNewPrompt st = st\<lparr>promptCount := Suc (promptCount st)\<rparr>"

definition getPromptCount :: "Orchestrator \<Rightarrow> nat" where
  "getPromptCount st = promptCount st"

fun isTerminal :: "ToolStatus \<Rightarrow> bool" where
  "isTerminal success = True"
| "isTerminal failed = True"
| "isTerminal cancelled = True"
| "isTerminal s = False"

text \<open>The \<open>streamingState\<close> memo.\<close>

definition streamingState :: "Orchestrator \<Rightarrow> StreamingState" where
  "streamingState st =
     (if list_ex (\<lambda>tc. toolStatus tc = awaiting_approval) (toolCalls st)
      then WaitingForConfirmation
      else if isResponding st
              \<or> list_ex (\<lambda>tc. toolStatus tc = executing
                               \<or> toolStatus tc = scheduled
                               \<or> toolStatus tc = validating
                               \<or> (isTerminal (toolStatus tc)
                                   \<and> \<not> responseSubmittedTocasualresearch tc))
                   (toolCalls st)
      then Responding
      else Idle)"

text \<open>The handler of the escape key.\<close>

definition onEscape :: "Orchestrator \<Rightarrow> Orchestrator" where
  "onEscape st =
     (if streamingState st = Responding then
        (if turnCancelled st then st
         else
           (let st1 = st\<lparr>turnCancelled := True, abortSignalAborted := True\<rparr>;
                st2 = (case pendingHistoryItem st1 of
                         Some item \<Rightarrow> addItem st1 item
                       | None \<Rightarrow> st1);
                st3 = addItem st2 (ItemInfo (InfoPlain ''Request cancelled.''))
            in st3\<lparr>pendingHistoryItem := None,
                   cancelledSubmits := Suc (cancelledSubmits st3),
                   isResponding := False\<rparr>))
      else st)"

text \<open>
  \<open>prepareQueryForcasualresearch\<close>: the state after it, the query to send (\<open>None\<close>
  is \<open>null\<close>) and \<open>shouldProceed\<close>.  The function is asynchronous.  Its start runs
  with the call: it returns at once when the turn was cancelled or the query is a string
  that is empty after \<open>trim\<close>.  For a string it is then suspended at
  \<open>await logger?.logMessage(...)\<close>, before the slash command is looked at; the rest
  (\<open>prepareRest\<close>) runs when it is resumed.  For a part list the rest only hands the
  query back.
\<close>

definition prepareReturnsAtOnce :: "Orchestrator \<Rightarrow> PartListUnion \<Rightarrow> bool" where
  "prepareReturnsAtOnce st query =
     (turnCancelled st
      \<or> (case query of Single (PartString text) \<Rightarrow> trim text = [] | other \<Rightarrow> False))"

definition prepareRest ::
  "OrchEnv \<Rightarrow> Orchestrator \<Rightarrow> PartListUnion \<Rightarrow> string
     \<Rightarrow> Orchestrator \<times> PartListUnion option \<times> bool" where
  "prepareRest env st query promptId =
     (case query of
        Single (PartString text) \<Rightarrow>
          (let trimmedQuery = trim text
           in case handleSlashCommand env trimmedQuery of
                Some (schedule_tool toolName toolArgs) \<Rightarrow>
                  (scheduleToolCalls st
                     [\<lparr>callId = toolName @ ''-'' @ callIdSuffix env, name = toolName,
                       args = toolArgs, isClientInitiated = True, prompt_id = promptId\<rparr>],
                   None, False)
              | Some (submit_prompt promptContent) \<Rightarrow> (st, Some promptContent, True)
              | Some handled \<Rightarrow> (st, None, False)
              | None \<Rightarrow>
                  (if shellModeActive env \<and> handleShellCommand env trimmedQuery
                   then (st, None, False)
                   else if isAtCommand env trimmedQuery then
                     (let atCommandResult = handleAtCommand env trimmedQuery;
                          st1 = st\<lparr>history := history st @ addedItems atCommandResult\<rparr>
                      in if \<not> shouldProceed atCommandResult then (st1, None, False)
                         else (case processedQuery atCommandResult of
                                 None \<Rightarrow> (st1, None, False)
                               | Some q \<Rightarrow> (st1, Some q, True)))
                   else
                     (addItem st (ItemUser trimmedQuery),
                      Some (Single (PartString trimmedQuery)), True)))
      | other \<Rightarrow> (st, Some other, True))"

definition prepareQueryForcasualresearch ::
  "OrchEnv \<Rightarrow> Orchestrator \<Rightarrow> PartListUnion \<Rightarrow> string
     \<Rightarrow> Orchestrator \<times> PartListUnion option \<times> bool" where
  "prepareQueryForcasualresearch env st query promptId =
     (if prepareReturnsAtOnce st query then (st, None, False)
      else prepareRest env st query promptId)"

fun isModelItem :: "HistoryItemWithoutId option \<Rightarrow> bool" where
  "isModelItem (Some (ItemModel t)) = True"
| "isModelItem (Some (ItemModelContent t)) = True"
| "isModelItem item = False"

text \<open>The pending model item with a new text and the type it has.\<close>

fun withText :: "HistoryItemWithoutId option \<Rightarrow> string \<Rightarrow> HistoryItemWithoutId" where
  "withText (Some (ItemModelContent old)) t = ItemModelContent t"
| "withText item t = ItemModel t"

definition handleContentEvent ::
  "OrchEnv \<Rightarrow> Orchestrator \<Rightarrow> string \<Rightarrow> string \<Rightarrow> Orchestrator \<times> string" where
  "handleContentEvent env st eventValue currentBuffer =
     (if turnCancelled st then (st, [])
      else
        (case (if \<not> isModelItem (pendingHistoryItem st)
               then ((case pendingHistoryItem st of
                        Some item \<Rightarrow> addItem st item
                      | None \<Rightarrow> st)\<lparr>pendingHistoryItem := Some (ItemModel [])\<rparr>,
                     eventValue)
               else (st, currentBuffer @ eventValue)) of
           (st1, newBuffer) \<Rightarrow>
             (let splitPoint = findLastSafeSplitPoint env newBuffer
              in if splitPoint = length newBuffer then
                   (st1\<lparr>pendingHistoryItem :=
                          Some (withText (pendingHistoryItem st1) newBuffer)\<rparr>,
                    newBuffer)
                 else
                   (let beforeText = take splitPoint newBuffer;
                        afterText = drop splitPoint newBuffer
                    in ((addItem st1 (withText (pendingHistoryItem st1) beforeText))
                          \<lparr>pendingHistoryItem := Some (ItemModelContent afterText)\<rparr>,
                        afterText)))))"

fun cancelDisplay :: "IndividualToolCallDisplay \<Rightarrow> IndividualToolCallDisplay" where
  "cancelDisplay tool =
     (if display_status tool = Pending \<or> display_status tool = Confirming
         \<or> display_status tool = Executing
      then tool\<lparr>display_status := Canceled\<rparr> else tool)"

definition handleUserCancelledEvent :: "Orchestrator \<Rightarrow> Orchestrator" where
  "handleUserCancelledEvent st =
     (if turnCancelled st then st
      else
        (let st1 = (case pendingHistoryItem st of
                      Some (ItemToolGroup tools) \<Rightarrow>
                        (addItem st (ItemToolGroup (map cancelDisplay tools)))
                          \<lparr>pendingHistoryItem := None\<rparr>
                    | Some item \<Rightarrow> (addItem st item)\<lparr>pendingHistoryItem := None\<rparr>
                    | None \<Rightarrow> st);
             st2 = addItem st1 (ItemInfo (InfoPlain ''User cancelled the request.''))
         in st2\<lparr>isResponding := False, thought := None\<rparr>))"

definition flushPending :: "Orchestrator \<Rightarrow> Orchestrator" where
  "flushPending st =
     (case pendingHistoryItem st of
        Some item \<Rightarrow> (addItem st item)\<lparr>pendingHistoryItem := None\<rparr>
      | None \<Rightarrow> st)"

definition handleErrorEvent :: "Orchestrator \<Rightarrow> StructuredError \<Rightarrow> Orchestrator" where
  "handleErrorEvent st err =
     (addItem (flushPending st) (ItemError (ApiError err)))\<lparr>thought := None\<rparr>"

text \<open>The table \<open>finishReasonMessages\<close>.\<close>

definition finishReasonMessages :: "string \<Rightarrow> string option" where
  "finishReasonMessages reason =
     (case map_of
       [(''FINISH_REASON_UNSPECIFIED'', None),
        (''STOP'', None),
        (''MAX_TOKENS'', Some ''Response truncated due to token limits.''),
        (''SAFETY'', Some ''Response stopped due to safety reasons.''),
        (''RECITATION'', Some ''Response stopped due to recitation policy.''),
        (''LANGUAGE'', Some ''Response stopped due to unsupported language.''),
        (''BLOCKLIST'', Some ''Response stopped due to forbidden terms.''),
        (''PROHIBITED_CONTENT'', Some ''Response stopped due to prohibited content.''),
        (''SPII'',
         Some ''Response stopped due to sensitive personally identifiable information.''),
        (''OTHER'', Some ''Response stopped for other reasons.''),
        (''MALFORMED_FUNCTION_CALL'', Some ''Response stopped due to malformed function call.''),
        (''IMAGE_SAFETY'', Some ''Response stopped due to image safety violations.''),
        (''UNEXPECTED_TOOL_CALL'', Some ''Response stopped due to unexpected tool call.'')]
       reason of
        Some (Some m) \<Rightarrow> Some m
      | _ \<Rightarrow> None)"

definition handleFinishedEvent :: "Orchestrator \<Rightarrow> string \<Rightarrow> Orchestrator" where
  "handleFinishedEvent st reason =
     (case finishReasonMessages reason of
        Some m \<Rightarrow> addItem st (ItemInfo (InfoFinishWarning m))
      | None \<Rightarrow> st)"

definition handleLoopDetectedEvent :: "Orchestrator \<Rightarrow> Orchestrator" where
  "handleLoopDetectedEvent st =
     addItem st (ItemInfo (InfoPlain
       (''A potential loop was detected. This can happen due to repetitive tool calls ''
        @ ''or other model behavior. The request has been halted.'')))"

text \<open>
  One round of the \<open>switch\<close> in \<open>processcasualresearchStreamEvents\<close>, on the state, the
  message buffer and the tool call requests collected so far.
\<close>

fun processEvent ::
  "OrchEnv \<Rightarrow> Orchestrator \<times> string \<times> ToolCallRequestInfo list \<Rightarrow> casualresearchEvent
     \<Rightarrow> Orchestrator \<times> string \<times> ToolCallRequestInfo list" where
  "processEvent env (st, buffer, requests) (Thought v) = (st\<lparr>thought := Some v\<rparr>, buffer, requests)"
| "processEvent env (st, buffer, requests) (Content v) =
     (case handleContentEvent env st v buffer of (st1, buffer1) \<Rightarrow> (st1, buffer1, requests))"
| "processEvent env (st, buffer, requests) (ToolCallRequest r) = (st, buffer, requests @ [r])"
| "processEvent env (st, buffer, requests) UserCancelled =
     (handleUserCancelledEvent st, buffer, requests)"
| "processEvent env (st, buffer, requests) (Error e) = (handleErrorEvent st e, buffer, requests)"
| "processEvent env (st, buffer, requests) (ChatCompressed v) =
     (addItem st (ItemInfo (InfoCompressed v)), buffer, requests)"
| "processEvent env (st, buffer, requests) (ToolCallConfirmation c) = (st, buffer, requests)"
| "processEvent env (st, buffer, requests) (ToolCallResponse c) = (st, buffer, requests)"
| "processEvent env (st, buffer, requests) MaxSessionTurns =
     (addItem st (ItemInfo InfoMaxSessionTurns), buffer, requests)"
| "processEvent env (st, buffer, requests) (Finished reason) =
     (handleFinishedEvent st reason, buffer, requests)"
| "processEvent env (st, buffer, requests) LoopDetected =
     (st\<lparr>loopDetected := True\<rparr>, buffer, requests)"

text \<open>
  \<open>processcasualresearchStreamEvents\<close>: the state after the events, and how the stream
  ended.  The collected tool calls are scheduled only when the stream completes.
\<close>

definition processcasualresearchStreamEvents ::
  "OrchEnv \<Rightarrow> Orchestrator \<Rightarrow> BackendStream \<Rightarrow> Orchestrator \<times> StreamEnding" where
  "processcasualresearchStreamEvents env st stream =
     (case foldl (processEvent env) (st, [], []) (streamEvents stream) of
        (st1, buffer, toolCallRequests) \<Rightarrow>
          (case streamEnding stream of
             Completes \<Rightarrow>
               (if toolCallRequests \<noteq> [] then scheduleToolCalls st1 toolCallRequests else st1,
                Completes)
           | thrown \<Rightarrow> (st1, thrown)))"

text \<open>
  The options of \<open>submitQuery\<close> are \<open>None\<close> when omitted, and the prompt id is
  \<open>None\<close> when omitted (an empty one is replaced as well).
\<close>

definition isContinuation :: "bool option \<Rightarrow> bool" where
  "isContinuation options = (options = Some True)"

text \<open>The decimal text of a number, as string concatenation gives it.\<close>

fun decimal :: "nat \<Rightarrow> string" where
  "decimal n =
     (if n < 10 then [char_of (48 + n)]
      else decimal (n div 10) @ [char_of (48 + n mod 10)])"

declare decimal.simps [simp del]

definition resolvePromptId :: "OrchEnv \<Rightarrow> Orchestrator \<Rightarrow> string option \<Rightarrow> string" where
  "resolvePromptId env st promptIdArg =
     (case promptIdArg of
        Some p \<Rightarrow>
          (if p \<noteq> [] then p
           else sessionId env @ ''########'' @ decimal (getPromptCount st))
      | None \<Rightarrow> sessionId env @ ''########'' @ decimal (getPromptCount st))"

text \<open>
  The part of \<open>submitQuery\<close> from \<open>setIsResponding(true)\<close> on: the \<open>try\<close>
  block with the call of the backend, its \<open>catch\<close> and its \<open>finally\<close>.  The flag
  \<open>isResponding\<close> is set during the whole of it.
\<close>

definition sendAndProcess ::
  "OrchEnv \<Rightarrow> Orchestrator \<Rightarrow> PartListUnion \<Rightarrow> string \<Rightarrow> bool option \<Rightarrow> Orchestrator" where
  "sendAndProcess env st queryToSend promptId options =
     (let st5 = st\<lparr>isResponding := True, initError := None\<rparr>;
          st6 = (if shouldLogSystemPrompt env \<and> \<not> isContinuation options
                 then (case getSystemInstruction env of
                         Some systemPrompt \<Rightarrow>
                           (if systemPrompt \<noteq> []
                            then addItem st5 (ItemSystemPrompt systemPrompt)
                            else st5)
                       | None \<Rightarrow> st5)
                 else st5);
          st7 = st6\<lparr>sentMessages := sentMessages st6 @ [(queryToSend, promptId)]\<rparr>
      in case processcasualresearchStreamEvents env st7
                (sendMessageStream env queryToSend promptId) of
           (st8, Completes) \<Rightarrow>
             (let st9 = flushPending st8;
                  st10 = (if loopDetected st9
                          then handleLoopDetectedEvent (st9\<lparr>loopDetected := False\<rparr>)
                          else st9)
              in st10\<lparr>isResponding := False\<rparr>)
         | (st8, ThrowsUnauthorized) \<Rightarrow>
             st8\<lparr>authErrors := Suc (authErrors st8), isResponding := False\<rparr>
         | (st8, ThrowsAbortError) \<Rightarrow> st8\<lparr>isResponding := False\<rparr>
         | (st8, ThrowsError msg) \<Rightarrow>
             (addItem st8 (ItemError (ThrownError msg)))\<lparr>isResponding := False\<rparr>)"

text \<open>
  \<open>submitQuery\<close> is asynchronous: the call runs up to
  \<open>await prepareQueryForcasualresearch(...)\<close>, is suspended there, and is resumed
  later; other calls and handlers may run in between.  \<open>submitQueryBegin\<close> is the
  part that runs with the call: the test of the streaming state, the reset of the quota
  flags, the new abort controller, the prompt id and the start of the preparation.  Its
  result is the state and, unless the call ends there, the suspended call with the values
  of its local variables.  The flag \<open>isResponding\<close> is not yet set in that state.
\<close>

record Submission =
  sub_query :: PartListUnion
  sub_options :: "bool option"
  sub_promptId :: string

definition submitQueryBegin ::
  "OrchEnv \<Rightarrow> Orchestrator \<Rightarrow> PartListUnion \<Rightarrow> bool option \<Rightarrow> string option
     \<Rightarrow> Orchestrator \<times> Submission option" where
  "submitQueryBegin env st query options promptIdArg =
     (if (streamingState st = Responding \<or> streamingState st = WaitingForConfirmation)
         \<and> \<not> isContinuation options
      then (st, None)
      else
        (let st1 = (if \<not> isContinuation options
                    then st\<lparr>modelSwitchedFromQuotaError := False, quotaErrorOccurred := False\<rparr>
                    else st);
             st2 = st1\<lparr>abortSignalAborted := False, turnCancelled := False\<rparr>;
             promptId = resolvePromptId env st2 promptIdArg
         in if prepareReturnsAtOnce st2 query then (st2, None)
            else (st2, Some \<lparr>sub_query = query, sub_options = options,
                                 sub_promptId = promptId\<rparr>)))"

text \<open>
  \<open>submitQueryResume\<close> is the suspended call resumed, on the state as it is then: the
  rest of the preparation, the new prompt, and the turn.  The streaming state is not
  tested again.  The later suspensions of the call (at the slash command, at the
  \<open>@\<close> command and in the loop over the stream) are not places where the model lets
  other operations in.
\<close>

definition submitQueryResume :: "OrchEnv \<Rightarrow> Orchestrator \<Rightarrow> Submission \<Rightarrow> Orchestrator" where
  "submitQueryResume env st sub =
     (case prepareRest env st (sub_query sub) (sub_promptId sub) of
        (st3, None, proceed) \<Rightarrow> st3
      | (st3, Some queryToSend, proceed) \<Rightarrow>
          (if \<not> proceed then st3
           else
             (let st4 = (if \<not> isContinuation (sub_options sub)
                         then (startNewPrompt st3)\<lparr>thought := None\<rparr> else st3)
              in sendAndProcess env st4 queryToSend (sub_promptId sub) (sub_options sub))))"

text \<open>A call of \<open>submitQuery\<close> that is resumed before anything else runs.\<close>

definition submitQuery ::
  "OrchEnv \<Rightarrow> Orchestrator \<Rightarrow> PartListUnion \<Rightarrow> bool option \<Rightarrow> string option \<Rightarrow> Orchestrator" where
  "submitQuery env st query options promptIdArg =
     (case submitQueryBegin env st query options promptIdArg of
        (st2, None) \<Rightarrow> st2
      | (st2, Some sub) \<Rightarrow> submitQueryResume env st2 sub)"

text \<open>
  Whether a suspended call, and a whole call, goes on to the backend: the preparation
  gives a query and \<open>shouldProceed\<close>.
\<close>

definition resumeProceeds :: "OrchEnv \<Rightarrow> Orchestrator \<Rightarrow> Submission \<Rightarrow> bool" where
  "resumeProceeds env st sub =
     (case prepareRest env st (sub_query sub) (sub_promptId sub) of
        (st3, Some queryToSend, proceed) \<Rightarrow> proceed
      | (st3, None, proceed) \<Rightarrow> False)"

definition submissionProceeds ::
  "OrchEnv \<Rightarrow> Orchestrator \<Rightarrow> PartListUnion \<Rightarrow> bool option \<Rightarrow> string option \<Rightarrow> bool" where
  "submissionProceeds env st query options promptIdArg =
     (case submitQueryBegin env st query options promptIdArg of
        (st2, None) \<Rightarrow> False
      | (st2, Some sub) \<Rightarrow> resumeProceeds env st2 sub)"

text \<open>The response parts of a call that has them.\<close>

definition partsOf :: "TrackedToolCall \<Rightarrow> PartListUnion" where
  "partsOf tc = (case responseParts tc of Some p \<Rightarrow> p | None \<Rightarrow> Multiple [])"

text \<open>
  The parts added to the client history for cancelled calls: the response parts of the
  calls flattened by one level (\<open>flatMap\<close>), a string becoming a text part.
\<close>

fun flatOne :: "PartListUnion \<Rightarrow> PartUnion list" where
  "flatOne (Multiple items) = items"
| "flatOne (Single item) = [item]"

fun asPart :: "PartUnion \<Rightarrow> Part" where
  "asPart (PartString s) = TextPart s"
| "asPart (PartObject p) = p"

definition readyToSubmit :: "TrackedToolCall list \<Rightarrow> TrackedToolCall list" where
  "readyToSubmit completed =
     filter (\<lambda>tc. isTerminal (toolStatus tc) \<and> responseParts tc \<noteq> None) completed"

definition firstPromptId :: "TrackedToolCall list \<Rightarrow> string option" where
  "firstPromptId tcs = (case tcs of tc # rest \<Rightarrow> Some (prompt_id (request tc)) | [] \<Rightarrow> None)"

text \<open>The calls the completion handler reports to the model.\<close>

definition modelTools :: "TrackedToolCall list \<Rightarrow> TrackedToolCall list" where
  "modelTools completed =
     filter (\<lambda>t. \<not> isClientInitiated (request t)) (readyToSubmit completed)"

text \<open>
  The first two blocks of \<open>handleCompletedTools\<close>: client-initiated calls are marked
  as submitted at once, and new successful \<open>save_memory\<close> calls trigger one memory
  refresh and are remembered.
\<close>

definition finalizeClientTools :: "Orchestrator \<Rightarrow> TrackedToolCall list \<Rightarrow> Orchestrator" where
  "finalizeClientTools st completed =
     (let clientTools = filter (\<lambda>t. isClientInitiated (request t)) (readyToSubmit completed)
      in if clientTools \<noteq> []
         then markToolsAsSubmitted st (map (\<lambda>t. callId (request t)) clientTools)
         else st)"

definition refreshMemory :: "Orchestrator \<Rightarrow> TrackedToolCall list \<Rightarrow> Orchestrator" where
  "refreshMemory st completed =
     (let newSuccessfulMemorySaves =
            filter (\<lambda>t. name (request t) = ''save_memory'' \<and> toolStatus t = success
                         \<and> \<not> List.member (processedMemoryTools st) (callId (request t)))
              (readyToSubmit completed)
      in if newSuccessfulMemorySaves \<noteq> []
         then st\<lparr>memoryRefreshes := Suc (memoryRefreshes st),
                 processedMemoryTools := processedMemoryTools st
                   @ map (\<lambda>t. callId (request t)) newSuccessfulMemorySaves\<rparr>
         else st)"

definition cancelledMessage :: "TrackedToolCall list \<Rightarrow> Content" where
  "cancelledMessage tcs =
     \<lparr>content_role = ''user'',
      content_parts = map asPart (concat (map (\<lambda>t. flatOne (partsOf t)) tcs))\<rparr>"

text \<open>
  \<open>handleCompletedTools\<close>.  The client is a non-null parameter of the hook, so the
  history is always extended in the branch of the cancelled calls.
\<close>

definition handleCompletedTools ::
  "OrchEnv \<Rightarrow> Orchestrator \<Rightarrow> TrackedToolCall list \<Rightarrow> Orchestrator" where
  "handleCompletedTools env st completedToolCallsFromScheduler =
     (if isResponding st then st
      else
        (let st2 = refreshMemory
                     (finalizeClientTools st completedToolCallsFromScheduler)
                     completedToolCallsFromScheduler;
             casualresearchTools = modelTools completedToolCallsFromScheduler;
             callIdsToMarkAsSubmitted = map (\<lambda>t. callId (request t)) casualresearchTools
         in if casualresearchTools = [] then st2
            else if list_all (\<lambda>tc. toolStatus tc = cancelled) casualresearchTools then
              markToolsAsSubmitted
                (addHistory st2 (cancelledMessage casualresearchTools))
                callIdsToMarkAsSubmitted
            else if modelSwitchedFromQuotaError st2 then st2
            else
              markToolsAsSubmitted
                (submitQuery env st2
                   (Multiple (mergePartListUnions (map partsOf casualresearchTools)))
                   (Some True)
                   (firstPromptId casualresearchTools))
                callIdsToMarkAsSubmitted))"

text \<open>The completion callback handed to the scheduler.\<close>

definition onComplete ::
  "OrchEnv \<Rightarrow> Orchestrator \<Rightarrow> TrackedToolCall list \<Rightarrow> Orchestrator" where
  "onComplete env st completedToolCallsFromScheduler =
     (if completedToolCallsFromScheduler \<noteq> [] then
        handleCompletedTools env
          (addItem st (mapTrackedToolCallsToDisplay env completedToolCallsFromScheduler))
          completedToolCallsFromScheduler
      else st)"

definition isSubmitted :: "Orchestrator \<Rightarrow> string \<Rightarrow> bool" where
  "isSubmitted st cid =
     list_all (\<lambda>tc. responseSubmittedTocasualresearch tc)
       (filter (\<lambda>tc. callId (request tc) = cid) (toolCalls st))"

text \<open>
  Modelled from the spec: the scheduler hook (\<open>useReactToolScheduler\<close>) is not under
  src/.  The spec has the scheduler drive each tool call through the states
  \<open>validating\<close>, \<open>scheduled\<close>, \<open>awaiting_approval\<close> and \<open>executing\<close> to a
  terminal state, produce its response parts, and publish the status of the calls; the
  tracked calls of the hook are what the scheduler last published.
\<close>

definition publishToolCalls :: "Orchestrator \<Rightarrow> TrackedToolCall list \<Rightarrow> Orchestrator" where
  "publishToolCalls st tracked = st\<lparr>toolCalls := tracked\<rparr>"

text \<open>
  The operations on the hook, and a run of them: a call of \<open>submitQuery\<close> that runs
  to its end, a call up to its suspension, a suspended call resumed, an update of the
  tracked calls by the scheduler, the completion callback, and the escape key.
\<close>

datatype Operation =
    Submit PartListUnion "bool option" "string option"
  | Begin PartListUnion "bool option" "string option"
  | Resume Submission
  | ToolCallsUpdate "TrackedToolCall list"
  | ToolsCompleted "TrackedToolCall list"
  | EscapeKey

fun perform :: "OrchEnv \<Rightarrow> Orchestrator \<Rightarrow> Operation \<Rightarrow> Orchestrator" where
  "perform env st (Submit query options promptIdArg) = submitQuery env st query options promptIdArg"
| "perform env st (Begin query options promptIdArg) =
     fst (submitQueryBegin env st query options promptIdArg)"
| "perform env st (Resume sub) = submitQueryResume env st sub"
| "perform env st (ToolCallsUpdate tracked) = publishToolCalls st tracked"
| "perform env st (ToolsCompleted completed) = onComplete env st completed"
| "perform env st EscapeKey = onEscape st"

fun runOperations :: "OrchEnv \<Rightarrow> Orchestrator \<Rightarrow> Operation list \<Rightarrow> Orchestrator" where
  "runOperations env st [] = st"
| "runOperations env st (operation # rest) = runOperations env (perform env st operation) rest"

text \<open>
  An operation in which a submission that is not a continuation goes on to the backend.
\<close>

fun startsNewPrompt :: "OrchEnv \<Rightarrow> Orchestrator \<Rightarrow> Operation \<Rightarrow> bool" where
  "startsNewPrompt env st (Submit query options promptIdArg) =
     (\<not> isContinuation options \<and> submissionProceeds env st query options promptIdArg)"
| "startsNewPrompt env st (Resume sub) =
     (\<not> isContinuation (sub_options sub) \<and> resumeProceeds env st sub)"
| "startsNewPrompt env st operation = False"

fun newPrompts :: "OrchEnv \<Rightarrow> Orchestrator \<Rightarrow> Operation list \<Rightarrow> nat" where
  "newPrompts env st [] = 0"
| "newPrompts env st (operation # rest) =
     (if startsNewPrompt env st operation then 1 else 0)
     + newPrompts env (perform env st operation) rest"

text \<open>Sample collaborators and states.\<close>

definition greeting_env :: OrchEnv where
  "greeting_env =
     \<lparr>sessionId = ''s1'',
      sendMessageStream =
        (\<lambda>q p. \<lparr>streamEvents = [Content ''Hi'', Finished ''STOP''], streamEnding = Completes\<rparr>),
      handleSlashCommand = (\<lambda>q. None),
      shellModeActive = False,
      handleShellCommand = (\<lambda>q. False),
      isAtCommand = (\<lambda>q. False),
      handleAtCommand =
        (\<lambda>q. \<lparr>processedQuery = None, shouldProceed = False, addedItems = []\<rparr>),
      findLastSafeSplitPoint = length,
      mapTrackedToolCallsToDisplay =
        (\<lambda>tcs. ItemToolGroup
           (map (\<lambda>tc. \<lparr>display_callId = callId (request tc),
                          display_status = (if toolStatus tc = success then Succeeded
                                            else if toolStatus tc = cancelled then Canceled
                                            else Errored)\<rparr>) tcs)),
      shouldLogSystemPrompt = False,
      getSystemInstruction = None,
      callIdSuffix = ''0-0''\<rparr>"

definition idle_state :: Orchestrator where
  "idle_state =
     \<lparr>isResponding = False, toolCalls = [], promptCount = 0, history = [],
      clientHistory = [], pendingHistoryItem = None, turnCancelled = False,
      abortSignalAborted = False, modelSwitchedFromQuotaError = False,
      quotaErrorOccurred = False, thought = None, initError = None, loopDetected = False,
      processedMemoryTools = [], memoryRefreshes = 0, sentMessages = [], authErrors = 0,
      cancelledSubmits = 0\<rparr>"

definition read_request :: ToolCallRequestInfo where
  "read_request =
     \<lparr>callId = ''t1'', name = ''read_file'', args = JObj [(''path'', JStr ''foo.txt'')],
      isClientInitiated = False, prompt_id = ''s1########0''\<rparr>"

definition file_response :: PartListUnion where
  "file_response =
     Single (PartObject (FunctionResponsePart ''t1'' (JObj [(''output'', JStr ''file contents'')])))"

definition read_done :: TrackedToolCall where
  "read_done =
     \<lparr>request = read_request, toolStatus = success, responseParts = Some file_response,
      responseSubmittedTocasualresearch = False\<rparr>"

definition read_cancelled :: TrackedToolCall where
  "read_cancelled =
     \<lparr>request = read_request, toolStatus = cancelled, responseParts = Some file_response,
      responseSubmittedTocasualresearch = False\<rparr>"

definition responding_state :: Orchestrator where
  "responding_state = idle_state\<lparr>isResponding := True\<rparr>"

definition waiting_state :: Orchestrator where
  "waiting_state = idle_state\<lparr>toolCalls := [read_done]\<rparr>"

definition hello_query :: PartListUnion where
  "hello_query = Single (PartString ''Say hello.'')"

definition busy_with_done :: Orchestrator where
  "busy_with_done = idle_state\<lparr>isResponding := True, toolCalls := [read_done]\<rparr>"

definition switched_state :: Orchestrator where
  "switched_state = waiting_state\<lparr>modelSwitchedFromQuotaError := True\<rparr>"

text \<open>
  A second finished call, whose response is a list of a function response and a string; a
  call started by the client; and a call that is still running.
\<close>

definition list_request :: ToolCallRequestInfo where
  "list_request =
     \<lparr>callId = ''t2'', name = ''list_directory'', args = JObj [(''path'', JStr ''.'')],
      isClientInitiated = False, prompt_id = ''s1########1''\<rparr>"

definition list_response :: PartListUnion where
  "list_response =
     Multiple [PartObject (FunctionResponsePart ''t2'' (JObj [(''output'', JStr ''a b'')])),
               PartString ''2 entries'']"

definition list_done :: TrackedToolCall where
  "list_done =
     \<lparr>request = list_request, toolStatus = failed, responseParts = Some list_response,
      responseSubmittedTocasualresearch = False\<rparr>"

definition list_cancelled :: TrackedToolCall where
  "list_cancelled = list_done\<lparr>toolStatus := cancelled\<rparr>"

definition client_done :: TrackedToolCall where
  "client_done =
     \<lparr>request = \<lparr>callId = ''c1'', name = ''save_memory'', args = JObj [],
                  isClientInitiated = True, prompt_id = ''s1########0''\<rparr>,
      toolStatus = success,
      responseParts = Some (Single (PartString ''saved'')),
      responseSubmittedTocasualresearch = False\<rparr>"

definition grep_running :: TrackedToolCall where
  "grep_running =
     \<lparr>request = \<lparr>callId = ''t3'', name = ''grep'', args = JObj [],
                  isClientInitiated = False, prompt_id = ''s1########0''\<rparr>,
      toolStatus = executing, responseParts = None,
      responseSubmittedTocasualresearch = False\<rparr>"

definition mixed_batch :: "TrackedToolCall list" where
  "mixed_batch = [client_done, grep_running, read_done, list_done]"

definition cancelled_batch :: "TrackedToolCall list" where
  "cancelled_batch = [client_done, read_cancelled, list_cancelled]"

definition mixed_state :: Orchestrator where
  "mixed_state = idle_state\<lparr>toolCalls := mixed_batch\<rparr>"

definition cancelled_state :: Orchestrator where
  "cancelled_state = idle_state\<lparr>toolCalls := cancelled_batch\<rparr>"

text \<open>
  A backend that answers the prompt \<open>Read foo.txt\<close> with the request to read the
  file, and anything else with a text.
\<close>

definition tool_env :: OrchEnv where
  "tool_env =
     greeting_env\<lparr>sendMessageStream :=
       (\<lambda>q p. if q = Single (PartString ''Read foo.txt'')
              then \<lparr>streamEvents = [ToolCallRequest read_request], streamEnding = Completes\<rparr>
              else \<lparr>streamEvents = [Content ''Done'', Finished ''STOP''],
                    streamEnding = Completes\<rparr>)\<rparr>"

definition read_query :: PartListUnion where
  "read_query = Single (PartString ''Read foo.txt'')"

definition first_submission :: Submission where
  "first_submission =
     \<lparr>sub_query = read_query, sub_options = None, sub_promptId = ''s1########0''\<rparr>"

definition second_submission :: Submission where
  "second_submission =
     \<lparr>sub_query = hello_query, sub_options = None, sub_promptId = ''s1########0''\<rparr>"

text \<open>
  Two prompts, the second typed while the first call is suspended in its preparation.
\<close>

definition overlapping_run :: "Operation list" where
  "overlapping_run =
     [Begin read_query None None, Begin hello_query None None,
      Resume first_submission, Resume second_submission]"

text \<open>
  A session: a prompt, the file read by the scheduler, the completion callback with the
  continuation, and a second prompt.
\<close>

definition session_run :: "Operation list" where
  "session_run =
     [Submit read_query None None,
      ToolCallsUpdate [read_done],
      ToolsCompleted [read_done],
      Submit hello_query None None]"

section \<open>Checkpoints of restorable tool calls (saveRestorableToolCalls)\<close>

text \<open>
  What the effect takes from its surroundings: the configuration, the file system (whether
  \<open>mkdir\<close> and \<open>writeFile\<close> succeed or throw), the git service, the \<open>path\<close>
  functions, the ISO time when the loop reaches a call, and the two histories as the JSON
  values that \<open>JSON.stringify\<close> serializes.
\<close>

datatype MkdirResult = Created | ThrowsEEXIST | ThrowsOther

datatype GitResult = Hash string | NoHash | GitThrows

record CheckpointEnv =
  getCheckpointingEnabled :: bool
  getProjectTempDir :: string
  mkdir :: "string \<Rightarrow> MkdirResult"
  writeFileSucceeds :: "string \<Rightarrow> bool"
  createFileSnapshot :: "string \<Rightarrow> GitResult"
  getCurrentCommitHash :: GitResult
  pathJoin :: "string \<Rightarrow> string \<Rightarrow> string"
  pathBasename :: "string \<Rightarrow> string"
  toISOString :: "TrackedToolCall \<Rightarrow> string"
  historyJson :: json
  clientHistoryJson :: json

text \<open>
  The outcome: the files written, as path and the JSON value serialized into the file, in
  the order of the writes, and the debug messages.
\<close>

record CheckpointLog =
  written :: "(string \<times> json) list"
  debugMessages :: "string list"

definition isRestorable :: "TrackedToolCall \<Rightarrow> bool" where
  "isRestorable toolCall =
     ((name (request toolCall) = ''replace'' \<or> name (request toolCall) = ''write_file'')
      \<and> toolStatus toolCall = awaiting_approval)"

text \<open>\<open>.replace(/:/g, '-').replace(/\./g, '_')\<close> on the ISO time.\<close>

definition timestampOf :: "string \<Rightarrow> string" where
  "timestampOf isoTime =
     map (\<lambda>c. if c = CHR '':'' then CHR ''-'' else if c = CHR ''.'' then CHR ''_'' else c) isoTime"

text \<open>
  The commit hash for a call: the snapshot's, else the current commit's; \<open>Inl ()\<close> when
  the git service throws, \<open>Inr None\<close> when neither gives a hash.
\<close>

definition hashOf :: "GitResult \<Rightarrow> string option" where
  "hashOf r = (case r of Hash h \<Rightarrow> (if h \<noteq> [] then Some h else None) | _ \<Rightarrow> None)"

definition commitHashFor :: "CheckpointEnv \<Rightarrow> TrackedToolCall \<Rightarrow> unit + string option" where
  "commitHashFor env toolCall =
     (case createFileSnapshot env (''Snapshot for '' @ name (request toolCall)) of
        GitThrows \<Rightarrow> Inl ()
      | snapshot \<Rightarrow>
          (case hashOf snapshot of
             Some h \<Rightarrow> Inr (Some h)
           | None \<Rightarrow>
               (case getCurrentCommitHash env of
                  GitThrows \<Rightarrow> Inl ()
                | current \<Rightarrow> Inr (hashOf current))))"

definition checkpointFileName :: "CheckpointEnv \<Rightarrow> TrackedToolCall \<Rightarrow> string \<Rightarrow> string" where
  "checkpointFileName env toolCall filePath =
     timestampOf (toISOString env toolCall) @ ''-'' @ pathBasename env filePath @ ''-''
     @ name (request toolCall) @ ''.json''"

definition checkpointContent ::
  "CheckpointEnv \<Rightarrow> TrackedToolCall \<Rightarrow> string \<Rightarrow> string \<Rightarrow> json" where
  "checkpointContent env toolCall commitHash filePath =
     JObj [(''history'', historyJson env),
           (''clientHistory'', clientHistoryJson env),
           (''toolCall'', JObj [(''name'', JStr (name (request toolCall))),
                               (''args'', args (request toolCall))]),
           (''commitHash'', JStr commitHash),
           (''filePath'', JStr filePath)]"

text \<open>One round of the loop over the restorable calls.\<close>

definition saveOne ::
  "CheckpointEnv \<Rightarrow> string \<Rightarrow> CheckpointLog \<Rightarrow> TrackedToolCall \<Rightarrow> CheckpointLog" where
  "saveOne env checkpointDir log toolCall =
     (let filePathArg = field (args (request toolCall)) ''file_path''
      in if \<not> truthy_opt filePathArg then
           log\<lparr>debugMessages := debugMessages log
             @ [''Skipping restorable tool call due to missing file_path: ''
                @ name (request toolCall)]\<rparr>
         else
           (case commitHashFor env toolCall of
              Inl thrown \<Rightarrow>
                log\<lparr>debugMessages := debugMessages log
                  @ [''Failed to write restorable tool call file'']\<rparr>
            | Inr None \<Rightarrow>
                log\<lparr>debugMessages := debugMessages log
                  @ [''Failed to create snapshot. Skipping restorable tool call.'']\<rparr>
            | Inr (Some commitHash) \<Rightarrow>
                (case filePathArg of
                   Some (JStr filePath) \<Rightarrow>
                     (let target = pathJoin env checkpointDir
                                     (checkpointFileName env toolCall filePath)
                      in if writeFileSucceeds env target then
                           log\<lparr>written := written log
                             @ [(target, checkpointContent env toolCall commitHash filePath)]\<rparr>
                         else
                           log\<lparr>debugMessages := debugMessages log
                             @ [''Failed to write restorable tool call file'']\<rparr>)
                 | other \<Rightarrow>
                     log\<lparr>debugMessages := debugMessages log
                       @ [''Failed to write restorable tool call file'']\<rparr>)))"

text \<open>
  \<open>saveRestorableToolCalls\<close>, on the tool calls of the scheduler.  The texts of the debug
  messages that quote an error or a path are cut to their fixed part.
\<close>

definition saveRestorableToolCalls ::
  "CheckpointEnv \<Rightarrow> TrackedToolCall list \<Rightarrow> CheckpointLog" where
  "saveRestorableToolCalls env trackedCalls =
     (let nothing = \<lparr>written = [], debugMessages = []\<rparr>
      in if \<not> getCheckpointingEnabled env then nothing
         else
           (let restorableToolCalls = filter isRestorable trackedCalls
            in if restorableToolCalls = [] then nothing
               else if getProjectTempDir env = [] then nothing
               else
                 (let checkpointDir = pathJoin env (getProjectTempDir env) ''checkpoints''
                  in case mkdir env checkpointDir of
                       ThrowsOther \<Rightarrow>
                         nothing\<lparr>debugMessages := [''Failed to create checkpoint directory'']\<rparr>
                     | made \<Rightarrow> foldl (saveOne env checkpointDir) nothing restorableToolCalls)))"

text \<open>Sample surroundings: POSIX paths, a file system and a git service that work.\<close>

definition write_request :: ToolCallRequestInfo where
  "write_request =
     \<lparr>callId = ''w1'', name = ''write_file'',
      args = JObj [(''file_path'', JStr ''/repo/src/a.ts''), (''content'', JStr ''x'')],
      isClientInitiated = False, prompt_id = ''s1########0''\<rparr>"

definition write_waiting :: TrackedToolCall where
  "write_waiting =
     \<lparr>request = write_request, toolStatus = awaiting_approval, responseParts = None,
      responseSubmittedTocasualresearch = False\<rparr>"

definition working_env :: CheckpointEnv where
  "working_env =
     \<lparr>getCheckpointingEnabled = True,
      getProjectTempDir = ''/tmp/project'',
      mkdir = (\<lambda>d. Created),
      writeFileSucceeds = (\<lambda>p. True),
      createFileSnapshot = (\<lambda>m. Hash ''abc123''),
      getCurrentCommitHash = NoHash,
      pathJoin = (\<lambda>a b. a @ ''/'' @ b),
      pathBasename = (\<lambda>p. rev (takeWhile (\<lambda>c. c \<noteq> CHR ''/'') (rev p))),
      toISOString = (\<lambda>tc. ''2025-01-02T03:04:05.678Z''),
      historyJson = JArr [],
      clientHistoryJson = JArr []\<rparr>"

definition no_temp_dir_env :: CheckpointEnv where
  "no_temp_dir_env = working_env\<lparr>getProjectTempDir := []\<rparr>"

section \<open>Properties of the file discovery service\<close>

lemma filterFiles_omitted:
  "filterFiles svc ps None = filter (\<lambda>p. \<not> shouldIgnoreFile svc p None) ps"
  by (simp add: filterFiles_def shouldIgnoreFile_def flag_set_def flag_default_true_def)

lemma filterFiles_full:
  "filterFiles svc ps (Some \<lparr>respectGitIgnore = Some g, respectcasualresearchIgnore = Some c\<rparr>)
   = filter (\<lambda>p. \<not> shouldIgnoreFile svc p
        (Some \<lparr>respectGitIgnore = Some g, respectcasualresearchIgnore = Some c\<rparr>)) ps"
  by (simp add: filterFiles_def shouldIgnoreFile_def flag_set_def flag_default_true_def)

text \<open>
  C10.  The batch filter and the single-path predicate are claimed to agree for every
  options record, partially specified ones included.  With only \<open>respectGitIgnore\<close> given,
  \<open>filterFiles\<close> reads the missing project-ignore flag as false and keeps \<open>a.log\<close>, while
  \<open>shouldIgnoreFile\<close> defaults the flag to true and reports the same path as ignored.
\<close>

theorem filterFiles_partial_options_disagree:
  "filterFiles log_service [''a.log''] (Some git_only_options) = [''a.log'']
   \<and> shouldIgnoreFile log_service ''a.log'' (Some git_only_options)
   \<and> filter (\<lambda>p. \<not> shouldIgnoreFile log_service p (Some git_only_options)) [''a.log''] = []"
  by (simp add: filterFiles_def shouldIgnoreFile_def flag_set_def flag_default_true_def
      shouldGitIgnoreFile_def shouldcasualresearchIgnoreFile_def log_service_def
      git_only_options_def)

section \<open>Properties of hasValidTypes\<close>

lemma object_values_falsy:
  "\<not> truthy_opt p \<Longrightarrow> object_values p = []"
  by (cases p rule: object_values.cases) auto

lemma hasValidTypes_step:
  "hasValidTypes v = (node_accepted v \<and> list_all hasValidTypes (reached_subschemas v))"
proof (cases v)
  case (JObj kvs)
  show ?thesis
  proof (cases "truthy_opt (map_of kvs ''type'')")
    case True
    with JObj show ?thesis
      by (auto simp: node_accepted_def has_type_def combinator_members_def
          property_schemas_def item_schema_def object_values_falsy split: option.splits)
  next
    case False
    then have "map_of kvs ''type'' \<noteq> Some (JStr ''object'')"
      and "map_of kvs ''type'' \<noteq> Some (JStr ''array'')"
      by auto
    with False JObj show ?thesis
      by (simp add: node_accepted_def has_type_def combinator_members_def
          property_schemas_def item_schema_def schemaArrayKeywords_def conj_commute)
  qed
qed (simp_all add: node_accepted_def has_type_def schemaArrayKeywords_def)

lemma hasValidTypes_nodes:
  "hasValidTypes v = list_all node_accepted (schema_nodes v)"
proof (induction v rule: schema_nodes.induct)
  case (1 v)
  have "list_all hasValidTypes (reached_subschemas v)
        = list_all (\<lambda>x. list_all node_accepted (schema_nodes x)) (reached_subschemas v)"
    using 1 by (simp add: list_all_iff)
  then have "hasValidTypes v
        = (node_accepted v
           \<and> list_all (\<lambda>x. list_all node_accepted (schema_nodes x)) (reached_subschemas v))"
    using hasValidTypes_step [of v] by simp
  also have "\<dots> = list_all node_accepted (schema_nodes v)"
    by (subst (2) schema_nodes.simps) (simp add: list_all_iff)
  finally show ?case .
qed

lemma array_elems_isArray: "array_elems m \<noteq> [] \<Longrightarrow> isArray m"
  by (cases m rule: isArray.cases) simp_all

lemma isArray_nonempty:
  "\<not> (isArray m \<and> array_elems m = []) \<Longrightarrow> isArray m = (array_elems m \<noteq> [])"
  using array_elems_isArray [of m] by blast

lemma node_accepted_valid:
  assumes "no_empty_combinator v"
  shows "node_accepted v = node_valid v"
proof -
  have "isArray (field v k) = (array_elems (field v k) \<noteq> [])"
    if "k \<in> set schemaArrayKeywords" for k
    using assms that isArray_nonempty [of "field v k"]
    by (simp add: no_empty_combinator_def list_all_iff)
  then have "list_ex (\<lambda>keyword. isArray (field v keyword)) schemaArrayKeywords
      = list_ex (\<lambda>keyword. array_elems (field v keyword) \<noteq> []) schemaArrayKeywords"
    by (simp add: list_ex_iff)
  then show ?thesis
    by (simp add: node_accepted_def node_valid_def)
qed

lemma empty_anyOf_accepted: "hasValidTypes empty_anyOf_schema"
  by (simp add: empty_anyOf_schema_def schemaArrayKeywords_def)

text \<open>
  C5 (as stated, refuted).  The claim counts every member of an \<open>anyOf\<close>, \<open>allOf\<close> or
  \<open>oneOf\<close> array as a node that needs a type.  The check reads these arrays only at a
  node without a type: the schema \<open>{type: "string", anyOf: [{}]}\<close> is accepted although
  the member \<open>{}\<close> of its \<open>anyOf\<close> array has neither a type nor a subschema array.
\<close>

theorem hasValidTypes_skips_members_of_typed_node:
  "hasValidTypes typed_with_untyped_member
   \<and> JObj [] \<in> set (array_elems (field typed_with_untyped_member ''anyOf''))
   \<and> \<not> node_valid (JObj [])"
  by (simp add: typed_with_untyped_member_def node_valid_def has_type_def
      schemaArrayKeywords_def)

text \<open>
  C5 (amended).  For a schema in which no node the check reaches carries an empty
  \<open>anyOf\<close>, \<open>allOf\<close> or \<open>oneOf\<close> array, \<open>hasValidTypes\<close> is true exactly when every
  reached node (the root; the property schemas of a node of type \<open>object\<close>; the item
  schema of a node of type \<open>array\<close>; the members of the three arrays of a node without a
  type) has a type or a non-empty \<open>anyOf\<close>, \<open>allOf\<close> or \<open>oneOf\<close> array.  Values that
  are not objects are valid.
\<close>

theorem hasValidTypes_iff_reached_nodes_valid:
  assumes "list_all no_empty_combinator (schema_nodes s)"
  shows "hasValidTypes s = list_all node_valid (schema_nodes s)"
proof -
  have "list_all node_accepted (schema_nodes s) = list_all node_valid (schema_nodes s)"
    using assms by (induction "schema_nodes s") (auto simp: list_all_iff node_accepted_valid)
  then show ?thesis by (simp add: hasValidTypes_nodes)
qed

theorem hasValidTypes_iff_reached_nodes_valid_witness:
  "list_all no_empty_combinator (schema_nodes nested_schema)
   \<and> hasValidTypes nested_schema
   \<and> list_all node_valid (schema_nodes nested_schema)"
proof -
  have h: "list_all no_empty_combinator (schema_nodes nested_schema)"
    by code_simp
  have v: "hasValidTypes nested_schema"
    by code_simp
  from hasValidTypes_iff_reached_nodes_valid [OF h] v h show ?thesis
    by simp
qed

section \<open>Properties of the OpenRouter conversion\<close>

lemma convertToolCalls_length:
  "convertToolCalls JSON_parse tcs = Inr calls \<Longrightarrow> length calls = length tcs"
  by (induction tcs arbitrary: calls) (auto split: sum.splits)

text \<open>
  A complete (non-streaming) message: the function calls in order, then the text when there
  is any.
\<close>

lemma convert_message_parts:
  assumes "convertToolCalls JSON_parse tcs = Inr calls" and "c \<noteq> []"
  shows "converted_parts (convertFromOpenRouterFormat JSON_parse
            (message_reply \<lparr>content = Some c, tool_calls = Some tcs\<rparr>) False)
         = map FunctionCallPart calls @ [TextPart c]"
  using assms
  by (simp add: convertFromOpenRouterFormat_def message_reply_def first_choice_def
      converted_parts_def str_or_def Let_def)

lemma convert_message_sample:
  "converted_parts (convertFromOpenRouterFormat sample_JSON_parse
      (message_reply checking_message) False)
   = [FunctionCallPart read_file_function_call, TextPart ''Let me check'']"
  by (simp add: convertFromOpenRouterFormat_def message_reply_def first_choice_def
      converted_parts_def str_or_def Let_def checking_message_def read_file_call_def
      convertToolCall_def sample_JSON_parse_def read_file_function_call_def)

text \<open>
  C4.  A streaming delta that carries both a tool call and text content: the conversion
  returns from the tool-call branch, and the candidate holds the function call only.  The
  text \<open>Let me check\<close> is in no part of the result, where the claim has it become a text
  part after the function call (as the non-streaming branch does for the same message).
\<close>

theorem convert_streaming_delta_drops_content:
  "convertFromOpenRouterFormat sample_JSON_parse (delta_chunk checking_message) True
   = Inr (Some \<lparr>candidates =
                   [\<lparr>parts = [FunctionCallPart read_file_function_call], role = ''model'',
                     finishReason = None\<rparr>],
                 usageMetadata = None,
                 response_text = [],
                 functionCalls = Some [read_file_function_call]\<rparr>)"
  by (simp add: convertFromOpenRouterFormat_def delta_chunk_def first_choice_def
      str_or_def str_or_undefined_def Let_def checking_message_def read_file_call_def
      convertToolCall_def sample_JSON_parse_def read_file_function_call_def)

section \<open>Properties of the streaming generator\<close>

lemma split_newline_not_Nil: "split_newline s \<noteq> []"
  by (induction s) (auto split: list.splits)

lemma split_newline_Cons:
  "split_newline (c # cs)
     = (if c = newline then [] # split_newline cs
        else (c # hd (split_newline cs)) # tl (split_newline cs))"
  using split_newline_not_Nil [of cs] by (cases "split_newline cs") auto

lemma process_lines_Cons:
  "process_lines pc jp (line # rest)
     = (if startsWith line ''data: '' then
          (if payload line = ''[DONE]'' then ([], True)
           else (case yield_of pc jp (payload line) of
                   Some converted \<Rightarrow>
                     (converted # fst (process_lines pc jp rest), snd (process_lines pc jp rest))
                 | None \<Rightarrow> process_lines pc jp rest))
        else process_lines pc jp rest)"
  by (simp add: Let_def payload_def split: option.splits prod.splits)

declare split_newline.simps(2) [simp del]
declare process_lines.simps(2) [simp del]

lemma split_newline_no_newline:
  "newline \<notin> set s \<Longrightarrow> split_newline s = [s]"
  by (induction s) (auto simp: split_newline_Cons)

lemma last_split_newline_no_newline: "newline \<notin> set (last (split_newline s))"
proof (induction s)
  case Nil
  show ?case by simp
next
  case (Cons c cs)
  obtain l ls where S: "split_newline cs = l # ls"
    using split_newline_not_Nil [of cs] by (cases "split_newline cs") auto
  with Cons show ?case by (cases ls) (auto simp: split_newline_Cons)
qed

lemma split_newline_append:
  "split_newline (a @ b)
     = butlast (split_newline a) @ split_newline (last (split_newline a) @ b)"
proof (induction a)
  case Nil
  show ?case by simp
next
  case (Cons c cs)
  obtain l ls where S: "split_newline cs = l # ls"
    using split_newline_not_Nil [of cs] by (cases "split_newline cs") auto
  show ?case
  proof (cases "c = newline")
    case True
    with Cons S show ?thesis by (simp add: split_newline_Cons)
  next
    case False
    show ?thesis
    proof (cases ls)
      case Nil
      with Cons S False show ?thesis by (simp add: split_newline_Cons)
    next
      case (Cons l' ls')
      with Cons.IH S False show ?thesis by (simp add: split_newline_Cons)
    qed
  qed
qed

lemma process_lines_append:
  "process_lines pc jp (xs @ ys)
     = (if snd (process_lines pc jp xs) then process_lines pc jp xs
        else (fst (process_lines pc jp xs) @ fst (process_lines pc jp ys),
              snd (process_lines pc jp ys)))"
  by (induction xs) (auto simp: process_lines_Cons split: option.splits)

lemma process_lines_spec:
  "fst (process_lines pc jp ls)
     = List.map_filter (\<lambda>line. yield_of pc jp (payload line))
         (takeWhile (\<lambda>line. payload line \<noteq> ''[DONE]'')
            (filter (\<lambda>line. startsWith line ''data: '') ls))"
  by (induction ls) (auto simp: process_lines_Cons map_filter_simps split: option.splits)

lemma read_loop_lines:
  "newline \<notin> set buffer \<Longrightarrow>
   read_loop pc jp buffer chunks
     = fst (process_lines pc jp (complete_lines (buffer @ concat chunks)))"
proof (induction chunks arbitrary: buffer)
  case Nil
  then show ?case by (simp add: complete_lines_def split_newline_no_newline)
next
  case (Cons chunk later)
  let ?lines = "split_newline (buffer @ chunk)"
  have rest: "read_loop pc jp (last ?lines) later
      = fst (process_lines pc jp (complete_lines (last ?lines @ concat later)))"
    by (rule Cons.IH) (rule last_split_newline_no_newline)
  have "split_newline ((buffer @ chunk) @ concat later)
      = butlast ?lines @ split_newline (last ?lines @ concat later)"
    by (rule split_newline_append)
  then have "complete_lines (buffer @ concat (chunk # later))
      = butlast ?lines @ complete_lines (last ?lines @ concat later)"
    by (simp add: complete_lines_def butlast_append split_newline_not_Nil)
  with rest show ?case
    by (simp add: Let_def process_lines_append)
qed

text \<open>
  C6.  The responses the generator yields are exactly these: take the complete lines of
  the body in order, keep those that begin with \<open>data: \<close>, stop at the first whose
  payload is \<open>[DONE]\<close>, and let each remaining payload give its converted response when
  it parses and converts, and nothing when parsing or conversion fails.  The generator is
  a total function of the chunks, so a malformed payload raises nothing.
\<close>

theorem createStreamGenerator_sse:
  "createStreamGenerator parse_chunk JSON_parse chunks
     = sse_responses parse_chunk JSON_parse (concat chunks)"
  using read_loop_lines [of "[]" parse_chunk JSON_parse chunks]
  by (simp add: createStreamGenerator_def sse_responses_def process_lines_spec)

text \<open>
  A body read in two chunks that splits the first line, ends the stream with \<open>[DONE]\<close>
  and goes on after it: one response, for the first line.
\<close>

lemma createStreamGenerator_sample:
  "createStreamGenerator sample_parse_chunk sample_JSON_parse
     [''data: '' @ take 10 hello_payload,
      drop 10 hello_payload @ [newline, newline] @ ''data: [DONE]'' @ [newline]
        @ ''data: '' @ hello_payload @ [newline]]
   = [\<lparr>candidates = [\<lparr>parts = [TextPart ''Hello''], role = ''model'', finishReason = None\<rparr>],
       usageMetadata = None,
       response_text = ''Hello'',
       functionCalls = Some []\<rparr>]"
  by code_simp

text \<open>
  White space around the payload is removed before the comparison, a no-break space and a
  carriage return included: the line ends the stream, and the line after it yields
  nothing.
\<close>

lemma createStreamGenerator_trims_payload:
  "trim ([CHR 0xA0] @ ''[DONE]'' @ [CHR 0x0D]) = ''[DONE]''
   \<and> createStreamGenerator sample_parse_chunk sample_JSON_parse
       [''data: '' @ [CHR 0xA0] @ ''[DONE]'' @ [CHR 0x0D, newline]
        @ ''data: '' @ hello_payload @ [newline]]
     = []"
  by code_simp

section \<open>Properties of the turn engine\<close>

lemma handlePendingFunctionCall_event:
  "\<not> isErrorEvent (snd (handlePendingFunctionCall env turn fnCall))"
  by (simp add: handlePendingFunctionCall_def Let_def)

lemma handleFunctionCalls_no_error:
  "list_all (\<lambda>ev. \<not> isErrorEvent ev) (snd (handleFunctionCalls env turn calls))"
proof (induction calls arbitrary: turn)
  case Nil
  show ?case by simp
next
  case (Cons fnCall rest)
  obtain turn1 event where h: "handlePendingFunctionCall env turn fnCall = (turn1, event)"
    by (cases "handlePendingFunctionCall env turn fnCall")
  obtain turn2 evs where r: "handleFunctionCalls env turn1 rest = (turn2, evs)"
    by (cases "handleFunctionCalls env turn1 rest")
  have "\<not> isErrorEvent event"
    using handlePendingFunctionCall_event [of env turn fnCall] h by simp
  moreover have "list_all (\<lambda>ev. \<not> isErrorEvent ev) evs"
    using Cons [of turn1] r by simp
  ultimately show ?case using h r by simp
qed

lemma handleResponse_no_error:
  "list_all (\<lambda>ev. \<not> isErrorEvent ev) (snd (handleResponse env turn resp))"
  using handleFunctionCalls_no_error
    [of env "turn\<lparr>debugResponses := debugResponses turn @ [resp]\<rparr>"
       "case functionCalls resp of Some fcs \<Rightarrow> fcs | None \<Rightarrow> []"]
  by (auto simp: handleResponse_def Let_def split: option.splits prod.splits)

lemma consume_no_error:
  "list_all (\<lambda>ev. \<not> isErrorEvent ev) (fst (snd (consume env turn stream)))"
proof (induction stream arbitrary: turn)
  case Nil
  show ?case by simp
next
  case (Cons item rest)
  obtain aborted resp where item: "item = (aborted, resp)" by (cases item)
  obtain turn1 evs where h: "handleResponse env turn resp = (turn1, evs)"
    by (cases "handleResponse env turn resp")
  have "list_all (\<lambda>ev. \<not> isErrorEvent ev) evs"
    using handleResponse_no_error [of env turn resp] h by simp
  with Cons [of turn1] item h show ?case
    by (auto split: prod.splits)
qed

lemma consume_not_returned:
  "list_all (\<lambda>item. \<not> fst item) stream \<Longrightarrow> \<not> snd (snd (consume env turn stream))"
proof (induction stream arbitrary: turn)
  case Nil
  show ?case by simp
next
  case (Cons item rest)
  obtain aborted resp where item: "item = (aborted, resp)" by (cases item)
  obtain turn1 evs where h: "handleResponse env turn resp = (turn1, evs)"
    by (cases "handleResponse env turn resp")
  from Cons.prems item have "\<not> aborted" and "list_all (\<lambda>item. \<not> fst item) rest"
    by simp_all
  with Cons.IH [of turn1] item h show ?case
    by (auto split: prod.splits)
qed

text \<open>
  C3 (as stated, refuted).  The claim tests the cancellation signal first.  The \<open>catch\<close>
  block tests for an unauthorized error first: with the signal aborted and an unauthorized
  error, the turn re-raises the error and emits no \<open>UserCancelled\<close> event.
\<close>

theorem run_unauthorized_while_aborted:
  "outcome (run sample_env new_turn [] (Raised unauthorized_error True))
     = Threw unauthorized_error
   \<and> events (run sample_env new_turn [] (Raised unauthorized_error True)) = []"
  by (simp add: run_def onException_def sample_env_def unauthorized_error_def)

text \<open>
  C3 (amended).  Let the backend stream raise a value after its items, none of which was
  received with the signal aborted.  If the error is an unauthorized error, the turn
  re-raises it and emits nothing more, aborted signal or not.  Otherwise, if the signal is
  aborted, the turn emits \<open>UserCancelled\<close> after the events of the items and returns.
  Otherwise it emits, after the events of the items, one \<open>Error\<close> event built from the
  error message and the status when that is a number (handed through the chat's
  schema-depth hook), the only \<open>Error\<close> event of the turn, and returns.
\<close>

theorem run_on_exception:
  assumes "list_all (\<lambda>item. \<not> fst item) stream"
  shows "(let error = toFriendlyError env e;
              before = events (run env turn stream Ended);
              result = run env turn stream (Raised e aborted)
          in if isUnauthorizedError env error then
               outcome result = Threw error \<and> events result = before
             else if aborted then
               outcome result = Returned \<and> events result = before @ [UserCancelled]
             else
               outcome result = Returned
               \<and> events result
                   = before @ [Error (maybeIncludeSchemaDepthContext env
                                 \<lparr>message = getErrorMessage env error,
                                  status = numericStatus (errorStatus env error)\<rparr>)]
               \<and> length (filter isErrorEvent (events result)) = 1)"
proof -
  obtain turn1 yielded returned where c: "consume env turn stream = (turn1, yielded, returned)"
    by (cases "consume env turn stream")
  have nr: "\<not> returned"
    using consume_not_returned [OF assms, of env turn] c by simp
  have ne: "filter isErrorEvent yielded = []"
    using consume_no_error [of env turn stream] c by (simp add: list_all_iff filter_empty_conv)
  show ?thesis
    using c nr ne by (simp add: run_def onException_def Let_def)
qed

theorem run_on_exception_witness:
  "list_all (\<lambda>item. \<not> fst item) [(False, hello_response)]
   \<and> events (run sample_env new_turn [(False, hello_response)] (Raised quota_error False))
       = [Content ''Hello'', Error \<lparr>message = ''Quota exceeded'', status = Some 429\<rparr>]
   \<and> outcome (run sample_env new_turn [(False, hello_response)] (Raised quota_error False))
       = Returned"
proof -
  have h: "list_all (\<lambda>item. \<not> fst item) [(False, hello_response)]" by simp
  have before: "events (run sample_env new_turn [(False, hello_response)] Ended)
      = [Content ''Hello'']"
    by (simp add: run_def handleResponse_def thoughtPart_def firstFinishReason_def
        sample_env_def hello_response_def Let_def)
  have env: "\<not> isUnauthorizedError sample_env (toFriendlyError sample_env quota_error)"
    "getErrorMessage sample_env (toFriendlyError sample_env quota_error) = ''Quota exceeded''"
    "numericStatus (errorStatus sample_env (toFriendlyError sample_env quota_error)) = Some 429"
    "maybeIncludeSchemaDepthContext sample_env = (\<lambda>s. s)"
    by (simp_all add: sample_env_def quota_error_def numericStatus_def)
  from run_on_exception [OF h, of sample_env quota_error new_turn False] before env h
  show ?thesis by (simp add: Let_def)
qed

section \<open>Properties of the MCP discovery\<close>

lemma updateMCPServerStatus_notifies:
  "notifications (updateMCPServerStatus st n s)
     = notifications st @ map (\<lambda>listener. (listener, n, s)) (statusChangeListeners st)"
  by (simp add: updateMCPServerStatus_def)

lemma updateMCPServerStatus_status:
  "getMCPServerStatus (updateMCPServerStatus st n s) n = s"
  by (simp add: updateMCPServerStatus_def getMCPServerStatus_def)

lemma updateMCPServerStatus_listeners:
  "statusChangeListeners (updateMCPServerStatus st n s) = statusChangeListeners st"
  by (simp add: updateMCPServerStatus_def)

lemma connectAndDiscover_no_client:
  "connectToMcpServer env n cfg = None \<Longrightarrow>
   connectAndDiscover env n cfg st
     = updateMCPServerStatus (updateMCPServerStatus st n CONNECTING) n DISCONNECTED"
  by (simp add: connectAndDiscover_def)

lemma createTransport_none:
  "\<not> given (command cfg) \<Longrightarrow> \<not> given (httpUrl cfg) \<Longrightarrow> \<not> given (url cfg) \<Longrightarrow>
   connectToMcpServer env n cfg = None"
  by (simp add: connectToMcpServer_def createTransport_def)

text \<open>
  The final status in terms of what the two discovery functions return: connected exactly
  when there is a client, the returned prompt list or the tool list is not empty, and the
  tool registrations went through.
\<close>

lemma connectAndDiscover_final_status:
  "getMCPServerStatus (connectAndDiscover env n cfg st) n
     = (case connectToMcpServer env n cfg of
          None \<Rightarrow> DISCONNECTED
        | Some c \<Rightarrow>
            (if snd (discoverPrompts env n c (promptRegistry st)) = []
                \<and> discoverTools env n cfg c = []
             then DISCONNECTED
             else if snd (registerTools env (toolRegistry st) (discoverTools env n cfg c))
             then CONNECTED else DISCONNECTED))"
  by (auto simp: connectAndDiscover_def Let_def discoveryFailed_def
      updateMCPServerStatus_def getMCPServerStatus_def split: option.splits prod.splits)

text \<open>
  C7.  The server \<open>empty\<close> lists no prompt and has no tool, so the claim has it end
  disconnected.  \<open>discoverPrompts\<close> returns all prompts of the registry, which holds a
  prompt of another server: the prompt list is not empty and the server ends connected.
\<close>

theorem connectAndDiscover_connected_without_prompts_or_tools:
  "listPrompts list_env () = Some []
   \<and> discoverTools list_env ''empty'' empty_server () = []
   \<and> snd (discoverPrompts list_env ''empty'' () (promptRegistry after_docs)) = [docs_prompt]
   \<and> getMCPServerStatus (connectAndDiscover list_env ''empty'' empty_server after_docs) ''empty''
       = CONNECTED
   \<and> notifications (connectAndDiscover list_env ''empty'' empty_server after_docs)
       = [(0, ''empty'', CONNECTING), (0, ''empty'', CONNECTED)]"
  by (simp add: connectAndDiscover_def connectToMcpServer_def createTransport_def given_def
      discoverPrompts_def discoverTools_def list_env_def after_docs_def empty_server_def
      updateMCPServerStatus_def getMCPServerStatus_def Let_def)

section \<open>Properties of the stream orchestrator\<close>

text \<open>
  Most steps leave the prompt count and the list of sent messages alone.
\<close>

definition sameCounters :: "Orchestrator \<Rightarrow> Orchestrator \<Rightarrow> bool" where
  "sameCounters st st' =
     (promptCount st' = promptCount st \<and> sentMessages st' = sentMessages st)"

lemma sameCounters_refl [simp]: "sameCounters st st"
  by (simp add: sameCounters_def)

lemma sameCounters_trans:
  "sameCounters a b \<Longrightarrow> sameCounters b c \<Longrightarrow> sameCounters a c"
  by (simp add: sameCounters_def)

lemma sameCounters_addItem [simp]: "sameCounters st (addItem st item)"
  by (simp add: sameCounters_def addItem_def)

lemma sameCounters_flushPending [simp]: "sameCounters st (flushPending st)"
  by (simp add: sameCounters_def flushPending_def addItem_def split: option.splits)

lemma sameCounters_scheduleToolCalls [simp]: "sameCounters st (scheduleToolCalls st rs)"
  by (simp add: sameCounters_def scheduleToolCalls_def)

lemma sameCounters_markToolsAsSubmitted [simp]: "sameCounters st (markToolsAsSubmitted st ids)"
  by (simp add: sameCounters_def markToolsAsSubmitted_def)

lemma sameCounters_addHistory [simp]: "sameCounters st (addHistory st c)"
  by (simp add: sameCounters_def addHistory_def)

lemma sameCounters_onEscape [simp]: "sameCounters st (onEscape st)"
  by (simp add: sameCounters_def onEscape_def addItem_def Let_def split: option.splits)

lemma sameCounters_handleContentEvent:
  "sameCounters st (fst (handleContentEvent env st v b))"
  by (simp add: sameCounters_def handleContentEvent_def addItem_def Let_def
      split: option.splits)

lemma sameCounters_handleUserCancelledEvent [simp]:
  "sameCounters st (handleUserCancelledEvent st)"
  by (simp add: sameCounters_def handleUserCancelledEvent_def addItem_def Let_def
      split: option.splits HistoryItemWithoutId.splits)

lemma sameCounters_handleErrorEvent [simp]: "sameCounters st (handleErrorEvent st e)"
  by (simp add: sameCounters_def handleErrorEvent_def flushPending_def addItem_def
      split: option.splits)

lemma sameCounters_handleFinishedEvent [simp]: "sameCounters st (handleFinishedEvent st r)"
  by (simp add: sameCounters_def handleFinishedEvent_def addItem_def split: option.splits)

lemma sameCounters_handleLoopDetectedEvent [simp]:
  "sameCounters st (handleLoopDetectedEvent st)"
  by (simp add: sameCounters_def handleLoopDetectedEvent_def addItem_def)

lemma sameCounters_processEvent:
  "sameCounters st (fst (processEvent env (st, b, rs) ev))"
proof (cases ev)
  case (Content v)
  then show ?thesis
    using sameCounters_handleContentEvent [of st env v b]
    by (auto split: prod.splits)
qed (simp_all, simp_all add: sameCounters_def)

lemma sameCounters_foldl_processEvent:
  "sameCounters st (fst (foldl (processEvent env) (st, b, rs) evs))"
proof (induction evs arbitrary: st b rs)
  case Nil
  show ?case by simp
next
  case (Cons ev evs)
  obtain st1 b1 rs1 where step: "processEvent env (st, b, rs) ev = (st1, b1, rs1)"
    by (cases "processEvent env (st, b, rs) ev")
  have "sameCounters st st1"
    using sameCounters_processEvent [of st env b rs ev] step by simp
  moreover have "sameCounters st1 (fst (foldl (processEvent env) (st1, b1, rs1) evs))"
    by (rule Cons.IH)
  ultimately show ?case
    using step by (simp add: sameCounters_def)
qed

lemma sameCounters_processStream:
  "sameCounters st (fst (processcasualresearchStreamEvents env st stream))"
proof -
  obtain st1 b rs where f: "foldl (processEvent env) (st, [], []) (streamEvents stream) = (st1, b, rs)"
    by (cases "foldl (processEvent env) (st, [], []) (streamEvents stream)")
  have "sameCounters st st1"
    using sameCounters_foldl_processEvent [of st env "[]" "[]" "streamEvents stream"] f by simp
  then show ?thesis
    using f by (simp add: processcasualresearchStreamEvents_def sameCounters_def
        scheduleToolCalls_def split: StreamEnding.splits)
qed

lemma sendAndProcess_counters:
  "promptCount (sendAndProcess env st q p options) = promptCount st
   \<and> sentMessages (sendAndProcess env st q p options) = sentMessages st @ [(q, p)]"
proof -
  define st7 where "st7 =
    (let st5 = st\<lparr>isResponding := True, initError := None\<rparr>;
         st6 = (if shouldLogSystemPrompt env \<and> \<not> isContinuation options
                then (case getSystemInstruction env of
                        Some systemPrompt \<Rightarrow>
                          (if systemPrompt \<noteq> []
                           then addItem st5 (ItemSystemPrompt systemPrompt) else st5)
                      | None \<Rightarrow> st5)
                else st5)
     in st6\<lparr>sentMessages := sentMessages st6 @ [(q, p)]\<rparr>)"
  have c7: "promptCount st7 = promptCount st \<and> sentMessages st7 = sentMessages st @ [(q, p)]"
    by (simp add: st7_def Let_def addItem_def split: option.splits)
  obtain st8 ending where
    pr: "processcasualresearchStreamEvents env st7 (sendMessageStream env q p) = (st8, ending)"
    by (cases "processcasualresearchStreamEvents env st7 (sendMessageStream env q p)")
  have c8: "sameCounters st7 st8"
    using sameCounters_processStream [of st7 env "sendMessageStream env q p"] pr by simp
  have "sendAndProcess env st q p options =
      (case ending of
         Completes \<Rightarrow>
           (let st9 = flushPending st8;
                st10 = (if loopDetected st9
                        then handleLoopDetectedEvent (st9\<lparr>loopDetected := False\<rparr>)
                        else st9)
            in st10\<lparr>isResponding := False\<rparr>)
       | ThrowsUnauthorized \<Rightarrow>
           st8\<lparr>authErrors := Suc (authErrors st8), isResponding := False\<rparr>
       | ThrowsAbortError \<Rightarrow> st8\<lparr>isResponding := False\<rparr>
       | ThrowsError msg \<Rightarrow>
           (addItem st8 (ItemError (ThrownError msg)))\<lparr>isResponding := False\<rparr>)"
    using pr unfolding sendAndProcess_def st7_def Let_def by (simp split: StreamEnding.splits)
  then show ?thesis
    using c7 c8
    by (cases ending)
       (simp_all add: sameCounters_def flushPending_def handleLoopDetectedEvent_def
          addItem_def Let_def split: option.splits)
qed

lemma prepareRest_counters:
  "sameCounters st (fst (prepareRest env st q p))"
  by (simp add: prepareRest_def sameCounters_def scheduleToolCalls_def
      addItem_def Let_def
      split: PartListUnion.splits PartUnion.splits option.splits
        SlashCommandProcessorResult.splits)

lemma prepareRest_parts:
  "\<not> isString q \<Longrightarrow> prepareRest env st q p = (st, Some q, True)"
  by (cases q rule: isString.cases) (simp_all add: prepareRest_def)

lemma prepareReturnsAtOnce_parts:
  "\<not> isString q \<Longrightarrow> prepareReturnsAtOnce st q = turnCancelled st"
  by (cases q rule: isString.cases) (simp_all add: prepareReturnsAtOnce_def)

lemma resolvePromptId_cong:
  "promptCount st' = promptCount st \<Longrightarrow> resolvePromptId env st' p = resolvePromptId env st p"
  by (simp add: resolvePromptId_def getPromptCount_def split: option.splits)

text \<open>The part of a call before its suspension sends nothing and counts nothing.\<close>

lemma submitQueryBegin_counters:
  "sameCounters st (fst (submitQueryBegin env st q options p))"
  by (simp add: submitQueryBegin_def sameCounters_def Let_def)

lemma submitQueryBegin_rejected:
  "streamingState st \<noteq> Idle \<Longrightarrow> \<not> isContinuation options \<Longrightarrow>
   submitQueryBegin env st q options p = (st, None)"
  by (cases "streamingState st") (simp_all add: submitQueryBegin_def)

lemma submitQuery_rejected:
  "streamingState st \<noteq> Idle \<Longrightarrow> \<not> isContinuation options \<Longrightarrow>
   submitQuery env st q options p = st"
  by (simp add: submitQuery_def submitQueryBegin_rejected)

text \<open>
  The resumed part of a call: one message is sent when the preparation lets the call
  proceed, none otherwise; the prompt count grows by one when, moreover, the call is not
  a continuation.
\<close>

lemma submitQueryResume_effect:
  "promptCount (submitQueryResume env st sub)
     = promptCount st
       + (if \<not> isContinuation (sub_options sub) \<and> resumeProceeds env st sub then 1 else 0)
   \<and> length (sentMessages (submitQueryResume env st sub))
     = length (sentMessages st) + (if resumeProceeds env st sub then 1 else 0)"
proof -
  obtain st3 qopt proceed where
    prep: "prepareRest env st (sub_query sub) (sub_promptId sub) = (st3, qopt, proceed)"
    by (cases "prepareRest env st (sub_query sub) (sub_promptId sub)")
  have c3: "sameCounters st st3"
    using prepareRest_counters [of st env "sub_query sub" "sub_promptId sub"] prep by simp
  show ?thesis
  proof (cases "qopt \<noteq> None \<and> proceed")
    case no: False
    have "submitQueryResume env st sub = st3" and "\<not> resumeProceeds env st sub"
      using prep no by (cases qopt; simp add: submitQueryResume_def resumeProceeds_def)+
    with c3 show ?thesis by (simp add: sameCounters_def)
  next
    case yes: True
    then obtain queryToSend where qs: "qopt = Some queryToSend" by auto
    define st4 where "st4 =
      (if \<not> isContinuation (sub_options sub)
       then (startNewPrompt st3)\<lparr>thought := None\<rparr> else st3)"
    have eq: "submitQueryResume env st sub
        = sendAndProcess env st4 queryToSend (sub_promptId sub) (sub_options sub)"
      and pr: "resumeProceeds env st sub"
      using prep yes qs
      by (simp_all add: submitQueryResume_def resumeProceeds_def st4_def Let_def)
    have c4: "promptCount st4
        = promptCount st + (if \<not> isContinuation (sub_options sub) then 1 else 0)"
      and s4: "sentMessages st4 = sentMessages st"
      using c3 by (simp_all add: st4_def startNewPrompt_def sameCounters_def)
    from eq pr c4 s4
      sendAndProcess_counters [of env st4 queryToSend "sub_promptId sub" "sub_options sub"]
    show ?thesis by simp
  qed
qed

lemma submitQueryBegin_options:
  "submitQueryBegin env st q options p = (st2, Some sub) \<Longrightarrow> sub_options sub = options"
  by (auto simp: submitQueryBegin_def Let_def split: if_splits)

lemma submitQuery_effect:
  "promptCount (submitQuery env st q options p)
     = promptCount st
       + (if \<not> isContinuation options \<and> submissionProceeds env st q options p then 1 else 0)
   \<and> length (sentMessages (submitQuery env st q options p))
     = length (sentMessages st) + (if submissionProceeds env st q options p then 1 else 0)"
proof -
  obtain st2 subopt where b: "submitQueryBegin env st q options p = (st2, subopt)"
    by (cases "submitQueryBegin env st q options p")
  have c2: "sameCounters st st2"
    using submitQueryBegin_counters [of st env q options p] b by simp
  show ?thesis
  proof (cases subopt)
    case None
    with b c2 show ?thesis
      by (simp add: submitQuery_def submissionProceeds_def sameCounters_def)
  next
    case (Some sub)
    have "sub_options sub = options"
      using b Some submitQueryBegin_options [of env st q options p st2 sub] by simp
    with b c2 Some submitQueryResume_effect [of env st2 sub] show ?thesis
      by (simp add: submitQuery_def submissionProceeds_def sameCounters_def)
  qed
qed

lemma submitQuery_continuation_sends:
  assumes "\<not> isString q"
  shows "sentMessages (submitQuery env st q (Some True) p)
           = sentMessages st @ [(q, resolvePromptId env st p)]
         \<and> promptCount (submitQuery env st q (Some True) p) = promptCount st"
proof -
  let ?st2 = "st\<lparr>abortSignalAborted := False, turnCancelled := False\<rparr>"
  have pid: "resolvePromptId env ?st2 p = resolvePromptId env st p"
    by (rule resolvePromptId_cong) simp
  have "submitQueryBegin env st q (Some True) p
      = (?st2, Some \<lparr>sub_query = q, sub_options = Some True,
                       sub_promptId = resolvePromptId env st p\<rparr>)"
    using assms pid
    by (simp add: submitQueryBegin_def isContinuation_def Let_def prepareReturnsAtOnce_parts)
  then have "submitQuery env st q (Some True) p
      = sendAndProcess env ?st2 q (resolvePromptId env st p) (Some True)"
    using assms
    by (simp add: submitQuery_def submitQueryResume_def prepareRest_parts isContinuation_def)
  then show ?thesis
    using sendAndProcess_counters [of env ?st2 q "resolvePromptId env st p" "Some True"]
    by simp
qed

text \<open>
  A call that is resumed at once is the call with the preparation done in one piece.
\<close>

lemma submitQuery_unsuspended:
  "submitQuery env st query options promptIdArg =
     (if (streamingState st = Responding \<or> streamingState st = WaitingForConfirmation)
         \<and> \<not> isContinuation options
      then st
      else
        (let st1 = (if \<not> isContinuation options
                    then st\<lparr>modelSwitchedFromQuotaError := False, quotaErrorOccurred := False\<rparr>
                    else st);
             st2 = st1\<lparr>abortSignalAborted := False, turnCancelled := False\<rparr>;
             promptId = resolvePromptId env st2 promptIdArg
         in case prepareQueryForcasualresearch env st2 query promptId of
              (st3, None, proceed) \<Rightarrow> st3
            | (st3, Some queryToSend, proceed) \<Rightarrow>
                (if \<not> proceed then st3
                 else
                   (let st4 = (if \<not> isContinuation options
                               then (startNewPrompt st3)\<lparr>thought := None\<rparr> else st3)
                    in sendAndProcess env st4 queryToSend promptId options))))"
  by (simp add: submitQuery_def submitQueryBegin_def submitQueryResume_def
      prepareQueryForcasualresearch_def Let_def split: prod.splits option.splits)

lemma streamingState_samples:
  "streamingState responding_state = Responding"
  "streamingState waiting_state = Responding"
  "streamingState idle_state = Idle"
  by (simp_all add: streamingState_def responding_state_def waiting_state_def idle_state_def
      read_done_def)

text \<open>
  The test at the start of \<open>submitQuery\<close>, for every state: while the streaming state is
  \<open>Responding\<close> or \<open>WaitingForConfirmation\<close>, a call that is not a continuation ends
  at once and leaves the state as it was, and a continuation with a part list is sent.
\<close>

lemma submitQuery_guard:
  "(streamingState st \<noteq> Idle \<and> \<not> isContinuation options
      \<longrightarrow> submitQueryBegin env st query options promptIdArg = (st, None)
          \<and> submitQuery env st query options promptIdArg = st)
   \<and> (\<not> isString query
      \<longrightarrow> sentMessages (submitQuery env st query (Some True) promptIdArg)
            = sentMessages st @ [(query, resolvePromptId env st promptIdArg)])"
  using submitQuery_rejected [of st options env query promptIdArg]
    submitQueryBegin_rejected [of st options env query promptIdArg]
    submitQuery_continuation_sends [of query env st promptIdArg]
  by blast

lemma finalizeClientTools_frame:
  "promptCount (finalizeClientTools st c) = promptCount st"
  "sentMessages (finalizeClientTools st c) = sentMessages st"
  "clientHistory (finalizeClientTools st c) = clientHistory st"
  "isResponding (finalizeClientTools st c) = isResponding st"
  "modelSwitchedFromQuotaError (finalizeClientTools st c) = modelSwitchedFromQuotaError st"
  by (simp_all add: finalizeClientTools_def markToolsAsSubmitted_def Let_def)

lemma refreshMemory_frame:
  "promptCount (refreshMemory st c) = promptCount st"
  "sentMessages (refreshMemory st c) = sentMessages st"
  "clientHistory (refreshMemory st c) = clientHistory st"
  "toolCalls (refreshMemory st c) = toolCalls st"
  "modelSwitchedFromQuotaError (refreshMemory st c) = modelSwitchedFromQuotaError st"
  by (simp_all add: refreshMemory_def Let_def)

lemma handleCompletedTools_promptCount:
  "promptCount (handleCompletedTools env st completed) = promptCount st"
proof -
  have merged: "\<not> isString (Multiple xs)" for xs by simp
  have cont: "promptCount (submitQuery env s (Multiple xs) (Some True) p) = promptCount s"
    for s xs p
    using submitQuery_continuation_sends [OF merged, of env s xs p] by simp
  show ?thesis
    unfolding handleCompletedTools_def Let_def
    by (simp add: markToolsAsSubmitted_def addHistory_def cont finalizeClientTools_frame
        refreshMemory_frame)
qed

lemma onComplete_promptCount:
  "promptCount (onComplete env st completed) = promptCount st"
  by (simp add: onComplete_def handleCompletedTools_promptCount addItem_def)

lemma perform_promptCount:
  "promptCount (perform env st operation)
     = promptCount st + (if startsNewPrompt env st operation then 1 else 0)"
proof (cases operation)
  case (Submit q options p)
  then show ?thesis
    using submitQuery_effect [of env st q options p] by simp
next
  case (Begin q options p)
  then show ?thesis
    using submitQueryBegin_counters [of st env q options p] by (simp add: sameCounters_def)
next
  case (Resume sub)
  then show ?thesis
    using submitQueryResume_effect [of env st sub] by simp
next
  case (ToolCallsUpdate tracked)
  then show ?thesis by (simp add: publishToolCalls_def)
next
  case (ToolsCompleted completed)
  then show ?thesis by (simp add: onComplete_promptCount)
next
  case EscapeKey
  then show ?thesis
    using sameCounters_onEscape [of st] by (simp add: sameCounters_def)
qed

lemma runOperations_promptCount:
  "promptCount (runOperations env st operations)
     = promptCount st + newPrompts env st operations"
proof (induction operations arbitrary: st)
  case Nil
  show ?case by simp
next
  case (Cons operation rest)
  show ?case
    using Cons [of "perform env st operation"] perform_promptCount [of env st operation]
    by simp
qed

text \<open>
  C2.  The claim: while the streaming state is \<open>Responding\<close> or
  \<open>WaitingForConfirmation\<close> a call of \<open>submitQuery\<close> that is not a continuation
  returns at once, and so no second submission that is not a continuation begins before
  the turn of the first is over.  The test is made when the call starts, but
  \<open>isResponding\<close> is set only after the call was suspended in
  \<open>prepareQueryForcasualresearch\<close>.  With two prompts, the second submitted while the
  first call is suspended: both calls pass the test in the state \<open>Idle\<close> and take the
  same prompt id; the first call resumed runs its turn, which leaves a tool call to be
  executed and the state \<open>Responding\<close>, where a new call of \<open>submitQuery\<close> with the
  second prompt changes nothing; yet the second call resumed starts its turn in that
  state, so that two prompts are counted and two messages sent while the tool call of
  the first turn is not yet executed.
\<close>

theorem submitQuery_overlapping_submissions:
  "streamingState idle_state = Idle
   \<and> submitQueryBegin tool_env idle_state read_query None None
       = (idle_state, Some first_submission)
   \<and> submitQueryBegin tool_env idle_state hello_query None None
       = (idle_state, Some second_submission)
   \<and> streamingState (submitQueryResume tool_env idle_state first_submission) = Responding
   \<and> map toolStatus (toolCalls (submitQueryResume tool_env idle_state first_submission))
       = [validating]
   \<and> submitQuery tool_env (submitQueryResume tool_env idle_state first_submission)
         hello_query None None
       = submitQueryResume tool_env idle_state first_submission
   \<and> runOperations tool_env idle_state overlapping_run
       = submitQueryResume tool_env
           (submitQueryResume tool_env idle_state first_submission) second_submission
   \<and> promptCount (runOperations tool_env idle_state overlapping_run) = 2
   \<and> sentMessages (runOperations tool_env idle_state overlapping_run)
       = [(read_query, ''s1########0''), (hello_query, ''s1########0'')]
   \<and> map toolStatus (toolCalls (runOperations tool_env idle_state overlapping_run))
       = [validating]
   \<and> streamingState (runOperations tool_env idle_state overlapping_run) = Responding"
  by code_simp

text \<open>
  C8.  A submission that is not a continuation and proceeds to the backend adds one to the
  prompt count and sends one message; a continuation leaves the count as it is; a
  submission sends a message exactly when it proceeds.  So over any run of operations
  (submissions in one piece or suspended and resumed, updates of the tracked calls by the
  scheduler, completion callbacks, cancel keys) the count grows by the number of
  submissions that are not continuations and proceed, and it never decreases.
\<close>

theorem promptCount_counts_new_prompts:
  "(\<not> isContinuation options \<and> submissionProceeds env st query options promptIdArg
      \<longrightarrow> promptCount (submitQuery env st query options promptIdArg) = Suc (promptCount st))
   \<and> (isContinuation options
      \<longrightarrow> promptCount (submitQuery env st query options promptIdArg) = promptCount st)
   \<and> promptCount (submitQuery env st query (Some True) promptIdArg) = promptCount st
   \<and> length (sentMessages (submitQuery env st query options promptIdArg))
       = length (sentMessages st)
         + (if submissionProceeds env st query options promptIdArg then 1 else 0)
   \<and> promptCount (runOperations env st operations)
       = promptCount st + newPrompts env st operations
   \<and> promptCount st \<le> promptCount (runOperations env st operations)"
  using submitQuery_effect [of env st query options promptIdArg]
    submitQuery_effect [of env st query "Some True" promptIdArg]
    runOperations_promptCount [of env st operations]
  by (simp add: isContinuation_def)

text \<open>
  A prompt in the idle state is counted; the continuation with the response of its tool
  call is sent and not counted.  In the session of a prompt, its tool call, the
  continuation and a second prompt, three messages reach the backend, two prompts are
  counted, and the session ends in the state \<open>Idle\<close>.
\<close>

theorem promptCount_counts_new_prompts_witness:
  "\<not> isContinuation None
   \<and> submissionProceeds tool_env idle_state read_query None None
   \<and> promptCount (submitQuery tool_env idle_state read_query None None) = 1
   \<and> length (sentMessages (submitQuery tool_env idle_state read_query None None)) = 1
   \<and> isContinuation (Some True)
   \<and> submissionProceeds tool_env waiting_state file_response (Some True)
        (Some ''s1########0'')
   \<and> promptCount (submitQuery tool_env waiting_state file_response (Some True)
        (Some ''s1########0'')) = 0
   \<and> length (sentMessages (submitQuery tool_env waiting_state file_response (Some True)
        (Some ''s1########0''))) = 1
   \<and> newPrompts tool_env idle_state session_run = 2
   \<and> promptCount (runOperations tool_env idle_state session_run) = 2
   \<and> length (sentMessages (runOperations tool_env idle_state session_run)) = 3
   \<and> streamingState (runOperations tool_env idle_state session_run) = Idle"
proof -
  have new: "\<not> isContinuation None" and cont: "isContinuation (Some True)"
    by (simp_all add: isContinuation_def)
  have proceeds: "submissionProceeds tool_env idle_state read_query None None"
    "submissionProceeds tool_env waiting_state file_response (Some True)
       (Some ''s1########0'')"
    by code_simp+
  have start: "promptCount idle_state = 0" "sentMessages idle_state = []"
    "promptCount waiting_state = 0" "sentMessages waiting_state = []"
    by (simp_all add: idle_state_def waiting_state_def)
  have counted: "newPrompts tool_env idle_state session_run = 2"
    by code_simp
  have session: "length (sentMessages (runOperations tool_env idle_state session_run)) = 3"
    "streamingState (runOperations tool_env idle_state session_run) = Idle"
    by code_simp+
  from promptCount_counts_new_prompts
      [of None tool_env idle_state read_query None session_run]
    promptCount_counts_new_prompts
      [of "Some True" tool_env waiting_state file_response "Some ''s1########0''" "[]"]
    new cont proceeds start counted session
  show ?thesis by simp
qed

text \<open>
  A prompt of white space only, here a no-break space and a space, is dropped when the
  call starts: it is not suspended, nothing is sent, and the prompt is not counted.
\<close>

lemma submitQuery_blank_prompt:
  "submitQueryBegin tool_env idle_state (Single (PartString [CHR 0xA0, CHR 0x20])) None None
     = (idle_state, None)
   \<and> \<not> submissionProceeds tool_env idle_state
         (Single (PartString [CHR 0xA0, CHR 0x20])) None None
   \<and> submitQuery tool_env idle_state (Single (PartString [CHR 0xA0, CHR 0x20])) None None
     = idle_state"
  by code_simp

lemma isSubmitted_markToolsAsSubmitted:
  "cid \<in> set ids \<Longrightarrow> isSubmitted (markToolsAsSubmitted st ids) cid"
  by (auto simp: isSubmitted_def markToolsAsSubmitted_def list_all_iff)

lemma all_isSubmitted_markToolsAsSubmitted:
  "list_all (isSubmitted (markToolsAsSubmitted st ids)) ids"
  by (simp add: list_all_iff isSubmitted_markToolsAsSubmitted)

lemma markToolsAsSubmitted_frame:
  "sentMessages (markToolsAsSubmitted st ids) = sentMessages st"
  "clientHistory (markToolsAsSubmitted st ids) = clientHistory st"
  by (simp_all add: markToolsAsSubmitted_def)

text \<open>
  C1 (as stated, refuted).  The handler returns at once while the hook is responding: the
  finished call \<open>t1\<close> has response parts and is not cancelled, yet no continuation is
  sent and the call is not marked as submitted.
\<close>

theorem handleCompletedTools_skipped_while_responding:
  "modelTools [read_done] = [read_done]
   \<and> handleCompletedTools greeting_env busy_with_done [read_done] = busy_with_done
   \<and> sentMessages busy_with_done = []
   \<and> \<not> isSubmitted busy_with_done ''t1''"
  by (simp add: handleCompletedTools_def modelTools_def readyToSubmit_def read_done_def
      read_request_def busy_with_done_def idle_state_def isSubmitted_def)

text \<open>
  After a switch of the model on a quota error the handler neither submits nor marks.
\<close>

lemma handleCompletedTools_after_quota_switch:
  "sentMessages (handleCompletedTools greeting_env switched_state [read_done]) = []
   \<and> \<not> isSubmitted (handleCompletedTools greeting_env switched_state [read_done]) ''t1''"
  by (simp add: handleCompletedTools_def modelTools_def readyToSubmit_def read_done_def
      read_request_def switched_state_def waiting_state_def idle_state_def isSubmitted_def
      finalizeClientTools_def refreshMemory_def Let_def)

text \<open>
  C1 (amended).  While the hook is responding the handler does nothing, whatever the
  state and the batch.  Let the hook not be responding, and let the batch hold at least
  one terminal call with response parts that is not client-initiated.  If all of these
  calls are cancelled, their response parts are appended to the client history as one
  user message, no message is sent, and the calls are marked as submitted.  Otherwise, if
  the model was switched on a quota error, nothing is sent and the history is unchanged.
  Otherwise the response parts of all these calls are merged into one part list and
  submitted as one continuation under the prompt id of the first call, and the calls are
  marked as submitted in the state that this submission returns.
\<close>

theorem handleCompletedTools_reports:
  "(isResponding st \<longrightarrow> handleCompletedTools env st completed = st)
   \<and> (\<not> isResponding st \<and> modelTools completed \<noteq> [] \<longrightarrow>
       (let result = handleCompletedTools env st completed;
            tools = modelTools completed;
            ids = map (\<lambda>t. callId (request t)) tools;
            before = refreshMemory (finalizeClientTools st completed) completed;
            merged = Multiple (mergePartListUnions (map partsOf tools))
        in if list_all (\<lambda>tc. toolStatus tc = cancelled) tools then
             clientHistory result = clientHistory st @ [cancelledMessage tools]
             \<and> sentMessages result = sentMessages st
             \<and> list_all (isSubmitted result) ids
           else if modelSwitchedFromQuotaError st then
             sentMessages result = sentMessages st
             \<and> clientHistory result = clientHistory st
             \<and> toolCalls result = toolCalls (finalizeClientTools st completed)
           else
             markToolsAsSubmitted
               (submitQuery env before merged (Some True) (firstPromptId tools)) ids
               = result
             \<and> sentMessages result
                 = sentMessages st @ [(merged, resolvePromptId env st (firstPromptId tools))]
             \<and> list_all (isSubmitted result) ids))"
proof (intro conjI impI)
  assume "isResponding st"
  then show "handleCompletedTools env st completed = st"
    by (simp add: handleCompletedTools_def)
next
  assume "\<not> isResponding st \<and> modelTools completed \<noteq> []"
  then have assms: "\<not> isResponding st" "modelTools completed \<noteq> []"
    by simp_all
  let ?tools = "modelTools completed"
  let ?ids = "map (\<lambda>t. callId (request t)) ?tools"
  let ?before = "refreshMemory (finalizeClientTools st completed) completed"
  let ?merged = "Multiple (mergePartListUnions (map partsOf ?tools))"
  have frame: "sentMessages ?before = sentMessages st"
    "clientHistory ?before = clientHistory st"
    "promptCount ?before = promptCount st"
    "modelSwitchedFromQuotaError ?before = modelSwitchedFromQuotaError st"
    "toolCalls ?before = toolCalls (finalizeClientTools st completed)"
    by (simp_all add: refreshMemory_frame finalizeClientTools_frame)
  have sent: "sentMessages (submitQuery env ?before ?merged (Some True) (firstPromptId ?tools))
      = sentMessages st @ [(?merged, resolvePromptId env st (firstPromptId ?tools))]"
  proof -
    have "\<not> isString ?merged" by simp
    from submitQuery_continuation_sends [OF this, of env ?before "firstPromptId ?tools"]
    show ?thesis
      using frame resolvePromptId_cong [of ?before st env "firstPromptId ?tools"] by simp
  qed
  show "(let result = handleCompletedTools env st completed;
            tools = modelTools completed;
            ids = map (\<lambda>t. callId (request t)) tools;
            before = refreshMemory (finalizeClientTools st completed) completed;
            merged = Multiple (mergePartListUnions (map partsOf tools))
        in if list_all (\<lambda>tc. toolStatus tc = cancelled) tools then
             clientHistory result = clientHistory st @ [cancelledMessage tools]
             \<and> sentMessages result = sentMessages st
             \<and> list_all (isSubmitted result) ids
           else if modelSwitchedFromQuotaError st then
             sentMessages result = sentMessages st
             \<and> clientHistory result = clientHistory st
             \<and> toolCalls result = toolCalls (finalizeClientTools st completed)
           else
             markToolsAsSubmitted
               (submitQuery env before merged (Some True) (firstPromptId tools)) ids
               = result
             \<and> sentMessages result
                 = sentMessages st @ [(merged, resolvePromptId env st (firstPromptId tools))]
             \<and> list_all (isSubmitted result) ids)"
  proof (cases "list_all (\<lambda>tc. toolStatus tc = cancelled) ?tools")
    case True
    then have "handleCompletedTools env st completed
        = markToolsAsSubmitted (addHistory ?before (cancelledMessage ?tools)) ?ids"
      using assms by (simp add: handleCompletedTools_def Let_def)
    then show ?thesis
      using True frame
      by (simp add: Let_def markToolsAsSubmitted_frame addHistory_def
          all_isSubmitted_markToolsAsSubmitted)
  next
    case notCancelled: False
    show ?thesis
    proof (cases "modelSwitchedFromQuotaError st")
      case True
      then have "handleCompletedTools env st completed = ?before"
        using assms notCancelled frame by (simp add: handleCompletedTools_def Let_def)
      then show ?thesis
        using True notCancelled frame by (simp add: Let_def)
    next
      case False
      then have "handleCompletedTools env st completed
          = markToolsAsSubmitted
              (submitQuery env ?before ?merged (Some True) (firstPromptId ?tools)) ?ids"
        using assms notCancelled frame by (simp add: handleCompletedTools_def Let_def)
      then show ?thesis
        using False notCancelled sent
        by (simp add: Let_def markToolsAsSubmitted_frame all_isSubmitted_markToolsAsSubmitted)
    qed
  qed
qed

text \<open>
  Two batches.  In the first, of a client-initiated call, a call that is still running,
  a successful call and a failed call with a list of two parts, the successful and the
  failed call are reported: their three parts are sent as one message, in the order of
  the calls, and both calls are marked as submitted.  In the second both calls are
  cancelled: the three parts make one user message of the client history, the string as a
  text part, and nothing is sent.
\<close>

lemma modelTools_samples:
  "modelTools mixed_batch = [read_done, list_done]"
  "modelTools cancelled_batch = [read_cancelled, list_cancelled]"
  by code_simp+

theorem handleCompletedTools_reports_witness:
  "isResponding busy_with_done
   \<and> handleCompletedTools greeting_env busy_with_done mixed_batch = busy_with_done
   \<and> \<not> isResponding mixed_state
   \<and> modelTools mixed_batch \<noteq> []
   \<and> sentMessages (handleCompletedTools greeting_env mixed_state mixed_batch)
       = [(Multiple [PartObject (FunctionResponsePart ''t1''
                       (JObj [(''output'', JStr ''file contents'')])),
                     PartObject (FunctionResponsePart ''t2''
                       (JObj [(''output'', JStr ''a b'')])),
                     PartString ''2 entries''],
           ''s1########0'')]
   \<and> isSubmitted (handleCompletedTools greeting_env mixed_state mixed_batch) ''t1''
   \<and> isSubmitted (handleCompletedTools greeting_env mixed_state mixed_batch) ''t2''
   \<and> \<not> isResponding cancelled_state
   \<and> modelTools cancelled_batch \<noteq> []
   \<and> clientHistory (handleCompletedTools greeting_env cancelled_state cancelled_batch)
       = [\<lparr>content_role = ''user'',
           content_parts = [FunctionResponsePart ''t1''
                              (JObj [(''output'', JStr ''file contents'')]),
                            FunctionResponsePart ''t2'' (JObj [(''output'', JStr ''a b'')]),
                            TextPart ''2 entries'']\<rparr>]
   \<and> sentMessages (handleCompletedTools greeting_env cancelled_state cancelled_batch) = []
   \<and> isSubmitted (handleCompletedTools greeting_env cancelled_state cancelled_batch) ''t1''
   \<and> isSubmitted (handleCompletedTools greeting_env cancelled_state cancelled_batch) ''t2''"
proof -
  have busy: "isResponding busy_with_done"
    by (simp add: busy_with_done_def)
  have idle: "\<not> isResponding mixed_state" "\<not> modelSwitchedFromQuotaError mixed_state"
    "sentMessages mixed_state = []"
    "\<not> isResponding cancelled_state"
    "sentMessages cancelled_state = []" "clientHistory cancelled_state = []"
    by (simp_all add: mixed_state_def cancelled_state_def idle_state_def)
  have status: "toolStatus read_done = success" "toolStatus read_cancelled = cancelled"
    "toolStatus list_cancelled = cancelled"
    "callId (request read_done) = ''t1''" "callId (request list_done) = ''t2''"
    "callId (request read_cancelled) = ''t1''" "callId (request list_cancelled) = ''t2''"
    "partsOf read_done = file_response" "partsOf list_done = list_response"
    "partsOf read_cancelled = file_response" "partsOf list_cancelled = list_response"
    "firstPromptId [read_done, list_done] = Some ''s1########0''"
    by (simp_all add: read_done_def read_cancelled_def list_done_def list_cancelled_def
        read_request_def list_request_def partsOf_def firstPromptId_def)
  from handleCompletedTools_reports [of busy_with_done greeting_env mixed_batch]
    handleCompletedTools_reports [of mixed_state greeting_env mixed_batch]
    handleCompletedTools_reports [of cancelled_state greeting_env cancelled_batch]
    busy idle status
  show ?thesis
    by (simp add: Let_def modelTools_samples resolvePromptId_def file_response_def
        list_response_def cancelledMessage_def)
qed

section \<open>Properties of the checkpoints\<close>

lemma saveOne_keeps_written:
  "set (written log) \<subseteq> set (written (saveOne env dir log tc))"
  by (auto simp: saveOne_def Let_def split: sum.splits option.splits json.splits)

lemma foldl_saveOne_keeps_written:
  "set (written log) \<subseteq> set (written (foldl (saveOne env dir) log tcs))"
proof (induction tcs arbitrary: log)
  case Nil
  show ?case by simp
next
  case (Cons tc tcs)
  show ?case
    using saveOne_keeps_written [of log env dir tc] Cons [of "saveOne env dir log tc"]
    by auto
qed

lemma saveOne_writes:
  assumes "field (args (request tc)) ''file_path'' = Some (JStr filePath)" and "filePath \<noteq> []"
    and "commitHashFor env tc = Inr (Some commitHash)"
    and "writeFileSucceeds env (pathJoin env dir (checkpointFileName env tc filePath))"
  shows "(pathJoin env dir (checkpointFileName env tc filePath),
          checkpointContent env tc commitHash filePath)
         \<in> set (written (saveOne env dir log tc))"
  using assms by (simp add: saveOne_def Let_def)

lemma foldl_saveOne_writes:
  assumes "tc \<in> set tcs"
    and "field (args (request tc)) ''file_path'' = Some (JStr filePath)" and "filePath \<noteq> []"
    and "commitHashFor env tc = Inr (Some commitHash)"
    and "writeFileSucceeds env (pathJoin env dir (checkpointFileName env tc filePath))"
  shows "(pathJoin env dir (checkpointFileName env tc filePath),
          checkpointContent env tc commitHash filePath)
         \<in> set (written (foldl (saveOne env dir) log tcs))"
  using assms(1)
proof (induction tcs arbitrary: log)
  case Nil
  then show ?case by simp
next
  case (Cons t ts)
  show ?case
  proof (cases "t = tc")
    case True
    have "(pathJoin env dir (checkpointFileName env tc filePath),
           checkpointContent env tc commitHash filePath)
          \<in> set (written (saveOne env dir log tc))"
      using assms(2-5) by (rule saveOne_writes)
    then show ?thesis
      using True foldl_saveOne_keeps_written [of "saveOne env dir log tc" env dir ts]
      by auto
  next
    case False
    with Cons.prems have "tc \<in> set ts" by simp
    then show ?thesis
      using Cons.IH [of "saveOne env dir log t"] by simp
  qed
qed

text \<open>
  C9 (as stated, refuted).  Checkpointing is enabled, the call \<open>write_file\<close> awaits
  approval with a \<open>file_path\<close>, and the snapshot gives a commit hash; but the project
  temp directory is empty, and the effect returns before it writes anything.
\<close>

theorem saveRestorableToolCalls_without_temp_dir:
  "getCheckpointingEnabled no_temp_dir_env
   \<and> isRestorable write_waiting
   \<and> field (args (request write_waiting)) ''file_path'' = Some (JStr ''/repo/src/a.ts'')
   \<and> commitHashFor no_temp_dir_env write_waiting = Inr (Some ''abc123'')
   \<and> written (saveRestorableToolCalls no_temp_dir_env [write_waiting]) = []"
  by (simp add: saveRestorableToolCalls_def no_temp_dir_env_def working_env_def
      isRestorable_def write_waiting_def write_request_def commitHashFor_def hashOf_def
      Let_def)

text \<open>
  C9 (amended).  Let checkpointing be enabled, the project temp directory be set, and the
  directory \<open>checkpoints\<close> under it be there or be created.  For every tracked call named
  \<open>replace\<close> or \<open>write_file\<close> that awaits approval with a non-empty string
  \<open>file_path\<close>, for which a commit hash is obtained and whose file can be written, the
  effect writes the file \<open>timestamp-basename-toolName.json\<close> in that directory, and the
  value serialized into it has exactly the fields \<open>history\<close>, \<open>clientHistory\<close>,
  \<open>toolCall\<close> (with \<open>name\<close> and \<open>args\<close>), \<open>commitHash\<close> and \<open>filePath\<close>.
\<close>

theorem saveRestorableToolCalls_writes_checkpoint:
  assumes "getCheckpointingEnabled env" and "getProjectTempDir env \<noteq> []"
    and "mkdir env (pathJoin env (getProjectTempDir env) ''checkpoints'') \<noteq> ThrowsOther"
    and "toolCall \<in> set trackedCalls" and "isRestorable toolCall"
    and "field (args (request toolCall)) ''file_path'' = Some (JStr filePath)"
    and "filePath \<noteq> []"
    and "commitHashFor env toolCall = Inr (Some commitHash)"
    and "writeFileSucceeds env
           (pathJoin env (pathJoin env (getProjectTempDir env) ''checkpoints'')
              (checkpointFileName env toolCall filePath))"
  shows "(pathJoin env (pathJoin env (getProjectTempDir env) ''checkpoints'')
            (timestampOf (toISOString env toolCall) @ ''-'' @ pathBasename env filePath
             @ ''-'' @ name (request toolCall) @ ''.json''),
          JObj [(''history'', historyJson env),
                (''clientHistory'', clientHistoryJson env),
                (''toolCall'', JObj [(''name'', JStr (name (request toolCall))),
                                    (''args'', args (request toolCall))]),
                (''commitHash'', JStr commitHash),
                (''filePath'', JStr filePath)])
         \<in> set (written (saveRestorableToolCalls env trackedCalls))"
proof -
  let ?dir = "pathJoin env (getProjectTempDir env) ''checkpoints''"
  let ?calls = "filter isRestorable trackedCalls"
  have mem: "toolCall \<in> set ?calls" using assms(4,5) by simp
  have ne: "?calls \<noteq> []" using assms(4,5) by (auto simp: filter_empty_conv)
  have run: "saveRestorableToolCalls env trackedCalls
      = foldl (saveOne env ?dir) \<lparr>written = [], debugMessages = []\<rparr> ?calls"
    using assms(1-3) ne
    by (cases "mkdir env ?dir") (simp_all add: saveRestorableToolCalls_def Let_def)
  have "(pathJoin env ?dir (checkpointFileName env toolCall filePath),
         checkpointContent env toolCall commitHash filePath)
        \<in> set (written (foldl (saveOne env ?dir) \<lparr>written = [], debugMessages = []\<rparr> ?calls))"
    using mem assms(6-9) by (rule foldl_saveOne_writes)
  then show ?thesis
    using run by (simp add: checkpointFileName_def checkpointContent_def)
qed

theorem saveRestorableToolCalls_writes_checkpoint_witness:
  "getCheckpointingEnabled working_env
   \<and> getProjectTempDir working_env \<noteq> []
   \<and> isRestorable write_waiting
   \<and> commitHashFor working_env write_waiting = Inr (Some ''abc123'')
   \<and> (''/tmp/project/checkpoints/2025-01-02T03-04-05_678Z-a.ts-write_file.json'',
       JObj [(''history'', JArr []),
             (''clientHistory'', JArr []),
             (''toolCall'',
                JObj [(''name'', JStr ''write_file''),
                      (''args'', JObj [(''file_path'', JStr ''/repo/src/a.ts''),
                                      (''content'', JStr ''x'')])]),
             (''commitHash'', JStr ''abc123''),
             (''filePath'', JStr ''/repo/src/a.ts'')])
      \<in> set (written (saveRestorableToolCalls working_env [write_waiting]))"
proof -
  have h1: "getCheckpointingEnabled working_env"
    and h2: "getProjectTempDir working_env \<noteq> []"
    and h3: "mkdir working_env (pathJoin working_env (getProjectTempDir working_env)
          ''checkpoints'') \<noteq> ThrowsOther"
    by (simp_all add: working_env_def)
  have h4: "write_waiting \<in> set [write_waiting]" by simp
  have h5: "isRestorable write_waiting"
    by (simp add: isRestorable_def write_waiting_def write_request_def)
  have h6: "field (args (request write_waiting)) ''file_path'' = Some (JStr ''/repo/src/a.ts'')"
    by (simp add: write_waiting_def write_request_def)
  have h7: "''/repo/src/a.ts'' \<noteq> []" by simp
  have h8: "commitHashFor working_env write_waiting = Inr (Some ''abc123'')"
    by (simp add: commitHashFor_def hashOf_def working_env_def)
  have h9: "writeFileSucceeds working_env
      (pathJoin working_env (pathJoin working_env (getProjectTempDir working_env) ''checkpoints'')
         (checkpointFileName working_env write_waiting ''/repo/src/a.ts''))"
    by (simp add: working_env_def)
  have vals: "historyJson working_env = JArr []" "clientHistoryJson working_env = JArr []"
    "name (request write_waiting) = ''write_file''"
    "args (request write_waiting)
       = JObj [(''file_path'', JStr ''/repo/src/a.ts''), (''content'', JStr ''x'')]"
    "getProjectTempDir working_env = ''/tmp/project''"
    "toISOString working_env write_waiting = ''2025-01-02T03:04:05.678Z''"
    "pathBasename working_env ''/repo/src/a.ts'' = ''a.ts''"
    by (simp_all add: working_env_def write_waiting_def write_request_def)
  have join: "pathJoin working_env a b = a @ ''/'' @ b" for a b
    by (simp add: working_env_def)
  from saveRestorableToolCalls_writes_checkpoint [OF h1 h2 h3 h4 h5 h6 h7 h8 h9]
  show ?thesis
    using h1 h2 h5 h8 by (simp add: vals join timestampOf_def)
qed

end
